theory Spec2Isabelle
  imports Main "HOL-Library.AList"
begin

section \<open>JavaScript values, strings and errors\<close>

text \<open>
  Strings are lists of 8-bit code units (the code points U+0000 to U+00FF). In that range
  the characters removed by \<^verbatim>\<open>String.prototype.trim\<close> are TAB, LF, VT, FF, CR, SPACE and
  NBSP. Numbers are integers: the shell only computes with exit codes, pids, counters and
  millisecond timestamps.
\<close>

datatype jsval =
    Undefined
  | Null
  | Bool bool
  | Num int
  | Str string
  | Arr "jsval list"
  | Obj "(string \<times> jsval) list"

type_synonym object = "(string \<times> jsval) list"

datatype error = Error string | SyntaxError string | TypeError string

fun truthy :: "jsval \<Rightarrow> bool" where
  "truthy Undefined = False"
| "truthy Null = False"
| "truthy (Bool b) = b"
| "truthy (Num n) = (n \<noteq> 0)"
| "truthy (Str s) = (s \<noteq> [])"
| "truthy (Arr xs) = True"
| "truthy (Obj kvs) = True"

text \<open>\<^verbatim>\<open>o[k]\<close> on a plain object: a missing own property reads as \<^verbatim>\<open>undefined\<close>.\<close>

definition get_prop :: "object \<Rightarrow> string \<Rightarrow> jsval" where
  "get_prop obj k = (case map_of obj k of None \<Rightarrow> Undefined | Some v \<Rightarrow> v)"

text \<open>
  \<^verbatim>\<open>o[k] = v\<close> on a plain object: an existing key keeps its place, a new key is appended.
  Assigning a primitive to \<^verbatim>\<open>__proto__\<close> is ignored by the setter of \<^verbatim>\<open>Object.prototype\<close>.
\<close>

definition set_prop :: "string \<Rightarrow> jsval \<Rightarrow> object \<Rightarrow> object" where
  "set_prop k v obj = (if k = ''__proto__'' then obj else AList.update k v obj)"

definition is_js_space :: "char \<Rightarrow> bool" where
  "is_js_space c =
     (c \<in> set [CHR 0x09, CHR 0x0A, CHR 0x0B, CHR 0x0C, CHR 0x0D, CHR 0x20, CHR 0xA0])"

definition trim :: "string \<Rightarrow> string" where
  "trim s = rev (dropWhile is_js_space (rev (dropWhile is_js_space s)))"

text \<open>\<^verbatim>\<open>s.split(sep)\<close> for a separator of one character.\<close>

fun split :: "char \<Rightarrow> string \<Rightarrow> string list" where
  "split sep [] = [[]]"
| "split sep (c # cs) =
     (if c = sep then [] # split sep cs
      else (case split sep cs of [] \<Rightarrow> [[c]] | p # ps \<Rightarrow> (c # p) # ps))"

definition startsWith :: "string \<Rightarrow> string \<Rightarrow> bool" where
  "startsWith s p = (take (length p) s = p)"

text \<open>Decimal rendering of a number inside a template literal.\<close>

fun digits :: "nat \<Rightarrow> string" where
  "digits n =
     (if n < 10 then [''0123456789'' ! n]
      else digits (n div 10) @ [''0123456789'' ! (n mod 10)])"

definition show_int :: "int \<Rightarrow> string" where
  "show_int i = (if i < 0 then CHR ''-'' # digits (nat (- i)) else digits (nat i))"

section \<open>The host's regular expressions\<close>

text \<open>
  \<^verbatim>\<open>new RegExp(src).test(s)\<close> belongs to the host. The security context takes it as a
  parameter \<open>rx\<close>: \<open>rx src s = None\<close> when the constructor throws a
  \<^verbatim>\<open>SyntaxError\<close>, and \<open>Some b\<close> when the (unanchored) test returns \<open>b\<close>.

  For the concrete evaluations below, \<open>regexp_fragment\<close> is that function on the sources
  made of ordinary characters, \<^verbatim>\<open>.\<close> and \<^verbatim>\<open>*\<close>: a dot is any character but a line
  terminator, a star repeats the atom before it, and a star with no atom before it (at the
  start, or after another star) is the host's "Nothing to repeat" syntax error. The other
  metacharacters of the grammar are outside the fragment, and no evaluation below uses them.
\<close>

type_synonym regexp = "string \<Rightarrow> string \<Rightarrow> bool option"

datatype atom = Lit char | AnyChar

datatype item = One atom | Star atom

fun compile :: "string \<Rightarrow> item list option" where
  "compile [] = Some []"
| "compile (c # cs) =
     (if c = CHR ''*'' then None
      else (let a = (if c = CHR ''.'' then AnyChar else Lit c) in
        (case cs of
           [] \<Rightarrow> Some [One a]
         | d # ds \<Rightarrow>
             if d = CHR ''*'' then map_option (Cons (Star a)) (compile ds)
             else map_option (Cons (One a)) (compile cs))))"

fun atom_ok :: "atom \<Rightarrow> char \<Rightarrow> bool" where
  "atom_ok (Lit l) c = (c = l)"
| "atom_ok AnyChar c = (c \<noteq> CHR 0x0A \<and> c \<noteq> CHR 0x0D)"

fun match_here :: "item list \<Rightarrow> string \<Rightarrow> bool" where
  "match_here [] s = True"
| "match_here (One a # r) [] = False"
| "match_here (One a # r) (c # s) = (atom_ok a c \<and> match_here r s)"
| "match_here (Star a # r) [] = match_here r []"
| "match_here (Star a # r) (c # s) =
     (match_here r (c # s) \<or> (atom_ok a c \<and> match_here (Star a # r) s))"

fun match_anywhere :: "item list \<Rightarrow> string \<Rightarrow> bool" where
  "match_anywhere r [] = match_here r []"
| "match_anywhere r (c # s) = (match_here r (c # s) \<or> match_anywhere r s)"

definition regexp_fragment :: regexp where
  "regexp_fragment src s = map_option (\<lambda>r. match_anywhere r s) (compile src)"

section \<open>Security context (src/core/security-context.js)\<close>

record audit_entry =
  ae_timestamp :: int
  ae_permission :: string
  ae_context :: object
  ae_granted :: bool
  ae_source :: jsval

datatype rule_type = Allow | Deny

record security_context =
  permissions :: "(string \<times> bool) list"
  capabilities :: "string list"
  securityPolicies :: "(string \<times> (rule_type \<times> string) list) list"
  auditLog :: "audit_entry list"

text \<open>The constructor: empty map, set and log.\<close>

definition new_security_context :: security_context where
  "new_security_context =
     \<lparr>permissions = [], capabilities = [], securityPolicies = [], auditLog = []\<rparr>"

text \<open>\<^verbatim>\<open>perm.replace('*', '.*')\<close>: a string pattern replaces the first occurrence only.\<close>

fun replace_star :: "string \<Rightarrow> string" where
  "replace_star [] = []"
| "replace_star (c # cs) = (if c = CHR ''*'' then ''.*'' @ cs else c # replace_star cs)"

text \<open>
  The loop of \<^verbatim>\<open>hasPermission\<close> over the entries of the map, in insertion order. The
  \<^verbatim>\<open>RegExp\<close> constructor runs for every visited key that contains a star, so a key that
  is not a regular expression after the replacement makes the lookup throw.
\<close>

fun scan_wildcards :: "regexp \<Rightarrow> (string \<times> bool) list \<Rightarrow> string \<Rightarrow> error + bool" where
  "scan_wildcards rx [] permission = Inr False"
| "scan_wildcards rx ((perm, granted) # rest) permission =
     (if CHR ''*'' \<in> set perm then
        (case rx (replace_star perm) permission of
           None \<Rightarrow> Inl (SyntaxError ''Invalid regular expression'')
         | Some True \<Rightarrow> Inr granted
         | Some False \<Rightarrow> scan_wildcards rx rest permission)
      else scan_wildcards rx rest permission)"

definition hasPermission :: "regexp \<Rightarrow> security_context \<Rightarrow> string \<Rightarrow> error + bool" where
  "hasPermission rx sc permission =
     (case map_of (permissions sc) permission of
        Some granted \<Rightarrow> Inr granted
      | None \<Rightarrow> scan_wildcards rx (permissions sc) permission)"

text \<open>
  \<^verbatim>\<open>checkPermission(permission, context)\<close>; \<open>now\<close> is the value \<^verbatim>\<open>Date.now()\<close> returns.
  The result is the thrown error or the returned decision, with the context after the call.
\<close>

definition source_of :: "object \<Rightarrow> jsval" where
  "source_of context = (if truthy (get_prop context ''source'') then get_prop context ''source'' else Str ''unknown'')"

definition checkPermission ::
  "regexp \<Rightarrow> int \<Rightarrow> string \<Rightarrow> object \<Rightarrow> security_context \<Rightarrow> (error + bool) \<times> security_context" where
  "checkPermission rx now permission context sc =
     (case hasPermission rx sc permission of
        Inl e \<Rightarrow> (Inl e, sc)
      | Inr granted \<Rightarrow>
          (Inr granted,
           sc\<lparr>auditLog := auditLog sc @
             [\<lparr>ae_timestamp = now, ae_permission = permission, ae_context = context,
               ae_granted = granted, ae_source = source_of context\<rparr>]\<rparr>))"

definition grantPermission :: "string \<Rightarrow> security_context \<Rightarrow> security_context" where
  "grantPermission permission sc = sc\<lparr>permissions := AList.update permission True (permissions sc)\<rparr>"

definition revokePermission :: "string \<Rightarrow> security_context \<Rightarrow> security_context" where
  "revokePermission permission sc = sc\<lparr>permissions := AList.update permission False (permissions sc)\<rparr>"

text \<open>\<^verbatim>\<open>Set.prototype.add\<close> keeps the first insertion of a value.\<close>

definition addCapability :: "string \<Rightarrow> security_context \<Rightarrow> security_context" where
  "addCapability capability sc =
     (if capability \<in> set (capabilities sc) then sc
      else sc\<lparr>capabilities := capabilities sc @ [capability]\<rparr>)"

text \<open>\<open>cwd\<close> is \<^verbatim>\<open>process.cwd()\<close>.\<close>

definition setDefaultPermissions :: "string \<Rightarrow> security_context \<Rightarrow> security_context" where
  "setDefaultPermissions cwd =
     addCapability ''net:local'' \<circ> addCapability ''fs:user-directory'' \<circ> addCapability ''shell:basic'' \<circ>
     grantPermission ''proc:info'' \<circ> grantPermission ''proc:list'' \<circ>
     grantPermission ''net:connect:localhost:*'' \<circ>
     grantPermission (''fs:write:'' @ cwd @ ''/*'') \<circ> grantPermission (''fs:read:'' @ cwd @ ''/*'') \<circ>
     grantPermission ''command:alias'' \<circ> grantPermission ''command:history'' \<circ>
     grantPermission ''command:exit'' \<circ> grantPermission ''command:help'' \<circ>
     grantPermission ''command:execute''"

definition loadSecurityPolicies :: "security_context \<Rightarrow> security_context" where
  "loadSecurityPolicies sc =
     sc\<lparr>securityPolicies :=
       AList.update ''developer''
         [(Allow, ''fs:*''), (Allow, ''proc:*''), (Allow, ''net:*''), (Deny, ''fs:write:/etc/passwd'')]
         (AList.update ''sandbox''
           [(Deny, ''fs:write:/etc/*''), (Deny, ''fs:write:/usr/*''), (Deny, ''proc:kill:*''),
            (Allow, ''fs:read:*'')]
           (securityPolicies sc))\<rparr>"

definition initialize :: "string \<Rightarrow> security_context \<Rightarrow> security_context" where
  "initialize cwd sc = loadSecurityPolicies (setDefaultPermissions cwd sc)"

fun apply_rules :: "(rule_type \<times> string) list \<Rightarrow> security_context \<Rightarrow> security_context" where
  "apply_rules [] sc = sc"
| "apply_rules ((Allow, resource) # rules) sc = apply_rules rules (grantPermission resource sc)"
| "apply_rules ((Deny, resource) # rules) sc = apply_rules rules (revokePermission resource sc)"

definition applyPolicy :: "string \<Rightarrow> security_context \<Rightarrow> error + security_context" where
  "applyPolicy policyName sc =
     (case map_of (securityPolicies sc) policyName of
        None \<Rightarrow> Inl (Error (''Security policy '' @ [CHR 0x27] @ policyName @ [CHR 0x27] @ '' not found''))
      | Some rules \<Rightarrow> Inr (apply_rules rules sc))"

definition clearAuditLog :: "security_context \<Rightarrow> security_context" where
  "clearAuditLog sc = sc\<lparr>auditLog := []\<rparr>"

text \<open>A sequence of checks, each with its own clock value; it stops at the first throw.\<close>

fun check_all ::
  "regexp \<Rightarrow> (int \<times> string \<times> object) list \<Rightarrow> security_context \<Rightarrow> (error + bool list) \<times> security_context" where
  "check_all rx [] sc = (Inr [], sc)"
| "check_all rx ((now, permission, context) # cs) sc =
     (case checkPermission rx now permission context sc of
        (Inl e, sc') \<Rightarrow> (Inl e, sc')
      | (Inr g, sc') \<Rightarrow>
          (case check_all rx cs sc' of
             (Inl e, sc'') \<Rightarrow> (Inl e, sc'')
           | (Inr gs, sc'') \<Rightarrow> (Inr (g # gs), sc'')))"

section \<open>Shell state and host\<close>

text \<open>
  The environment, the alias tables and the maps of the engine are JavaScript maps and
  objects with string keys: association lists in insertion order, with distinct keys.
\<close>

type_synonym env = "(string \<times> string) list"

text \<open>The shell variables a snapshot covers: current directory, environment, aliases.\<close>

type_synonym vars = "string \<times> env \<times> (string \<times> string) list"

record history_entry =
  he_input :: string
  he_timestamp :: int
  he_context :: object

text \<open>
  \<^verbatim>\<open>CommandEngine\<close>: the registered commands (name and required permissions; the handler
  function itself is host code, see \<open>host_handler\<close>), the engine's own alias map and the
  history.
\<close>

record command_engine =
  commands :: "(string \<times> string list) list"
  engine_aliases :: "(string \<times> string) list"
  commandHistory :: "history_entry list"

record shell_stats =
  commandsExecuted :: nat
  totalExecutionTime :: int
  memoryUsage :: int
  cacheHits :: nat
  cacheMisses :: nat

record shell_capture =
  cap_currentDirectory :: string
  cap_environment :: env
  cap_aliases :: "(string \<times> string) list"
  cap_stats :: shell_stats
  cap_plugins :: "string list"
  cap_isRunning :: bool

record snapshot_record =
  sn_id :: nat
  sn_timestamp :: int
  sn_type :: string
  sn_description :: string
  sn_systemState :: jsval
  sn_shellState :: shell_capture

text \<open>
  An entry of \<^verbatim>\<open>recording.commands\<close>. The properties \<^verbatim>\<open>result\<close>, \<^verbatim>\<open>error\<close> and
  \<^verbatim>\<open>executionTime\<close> do not exist until \<^verbatim>\<open>recordCommandResult\<close> assigns them: \<open>None\<close>
  is the missing property (for \<open>cr_error\<close>, \<open>Some None\<close> is \<^verbatim>\<open>null\<close>).
\<close>

record command_record =
  cr_id :: nat
  cr_timestamp :: int
  cr_input :: string
  cr_context :: object
  cr_systemState :: jsval
  cr_result :: "jsval option"
  cr_error :: "error option option"
  cr_executionTime :: "int option"

record recording_obj =
  rec_id :: nat
  rec_name :: string
  rec_startTime :: int
  rec_endTime :: "int option"
  rec_duration :: "int option"
  rec_commands :: "command_record list"
  rec_snapshots :: "snapshot_record list"

text \<open>
  \<^verbatim>\<open>ExecutionRecorder\<close>. The map \<^verbatim>\<open>recordings\<close> and the field \<^verbatim>\<open>currentRecording\<close>
  refer to the same mutable object, so recording objects live in a store \<open>objects\<close> and
  both hold references (positions in the store).
\<close>

record recorder =
  recording :: bool
  recordings :: "(nat \<times> nat) list"
  currentRecording :: "nat option"
  recordingId :: nat
  snapshots :: "snapshot_record list"
  recordingsDir :: string
  objects :: "recording_obj list"

record tx_snapshot =
  ts_timestamp :: int
  ts_currentDirectory :: string
  ts_environment :: env
  ts_aliases :: "(string \<times> string) list"

text \<open>
  An entry of \<^verbatim>\<open>transactionStack\<close>. \<^verbatim>\<open>options.onRollback\<close> is user code called with the
  transaction: a function of its id, snapshot and commands that returns or raises.
\<close>

record transaction =
  tx_id :: string
  tx_snapshot :: tx_snapshot
  tx_commands :: "string list"
  tx_onRollback :: "(string \<Rightarrow> tx_snapshot \<Rightarrow> string list \<Rightarrow> error option) option"

text \<open>Operations the shell performs on the host, in the order they happen.\<close>

datatype host_effect =
    Spawned "string" "string list" bool string env
  | ProcessKill int string
  | FsReadFile string string
  | FsWriteFile string string
  | Fetch string string
  | SaveRecording string recording_obj

record shell =
  isRunning :: bool
  currentDirectory :: string
  environment :: env
  aliases :: "(string \<times> string) list"
  plugins :: "string list"
  transactionStack :: "transaction list"
  stats :: shell_stats
  securityContext :: security_context
  commandEngine :: command_engine
  executionRecorder :: recorder
  ticks :: nat
  effects :: "host_effect list"

text \<open>
  What a command handler receives (\<^verbatim>\<open>{command, args, flags, context, shell}\<close>) and what
  host code run by the engine does: it returns a value or raises, and leaves the shell
  variables in a new state. Handlers and evaluated scripts are host code outside the core;
  of the shell they read and write the current directory, the environment and the aliases.
\<close>

record invocation =
  inv_command :: string
  inv_args :: "string list"
  inv_flags :: object
  inv_context :: object

type_synonym outcome = "(error + jsval) \<times> vars"

text \<open>What a spawned child does: the \<^verbatim>\<open>error\<close> event, or \<^verbatim>\<open>close\<close> with the exit code
  (\<^verbatim>\<open>null\<close> after a signal) and the data written to stdout and stderr.\<close>

datatype spawn_outcome = SpawnError error | Close "int option" string string

text \<open>
  The host: regular expressions, the clock (\<open>host_clock h n\<close> is what the \<open>n\<close>-th call of
  \<^verbatim>\<open>Date.now()\<close> returns; \<open>ticks\<close> counts the calls), process data, command handlers by
  name, script evaluation, child processes and the system calls of the bridge.
\<close>

record host =
  host_regexp :: regexp
  host_clock :: "nat \<Rightarrow> int"
  host_system :: "nat \<Rightarrow> jsval"
  host_heapUsed :: "nat \<Rightarrow> int"
  host_handler :: "string \<Rightarrow> invocation \<Rightarrow> vars \<Rightarrow> outcome"
  host_eval :: "string \<Rightarrow> object \<Rightarrow> vars \<Rightarrow> outcome"
  host_spawn :: "string \<Rightarrow> string list \<Rightarrow> bool \<Rightarrow> string \<Rightarrow> env \<Rightarrow> spawn_outcome"
  host_call :: "host_effect \<Rightarrow> error + jsval"

definition date_now :: "host \<Rightarrow> shell \<Rightarrow> int \<times> shell" where
  "date_now h s = (host_clock h (ticks s), s\<lparr>ticks := Suc (ticks s)\<rparr>)"

definition perform :: "host \<Rightarrow> host_effect \<Rightarrow> shell \<Rightarrow> (error + jsval) \<times> shell" where
  "perform h op s = (host_call h op, s\<lparr>effects := effects s @ [op]\<rparr>)"

definition message :: "error \<Rightarrow> string" where
  "message e = (case e of Error m \<Rightarrow> m | SyntaxError m \<Rightarrow> m | TypeError m \<Rightarrow> m)"

text \<open>
  \<^verbatim>\<open>this.shell.securityContext.checkPermission(permission, context)\<close>: the clock is read
  once, when the audit entry is built.
\<close>

definition shell_checkPermission :: "host \<Rightarrow> string \<Rightarrow> object \<Rightarrow> shell \<Rightarrow> (error + bool) \<times> shell" where
  "shell_checkPermission h permission context s =
     (case checkPermission (host_regexp h) (host_clock h (ticks s)) permission context (securityContext s) of
        (Inl e, sc) \<Rightarrow> (Inl e, s\<lparr>securityContext := sc\<rparr>)
      | (Inr granted, sc) \<Rightarrow> (Inr granted, s\<lparr>securityContext := sc, ticks := Suc (ticks s)\<rparr>))"

section \<open>Object bridge (src/core/object-bridge.js)\<close>

text \<open>
  Each method awaits \<^verbatim>\<open>checkPermission\<close> and goes on to the host operation; the boolean
  the check resolves to is not read.
\<close>

definition proc_kill :: "host \<Rightarrow> int \<Rightarrow> string \<Rightarrow> shell \<Rightarrow> (error + jsval) \<times> shell" where
  "proc_kill h pid signal s =
     (case shell_checkPermission h (''proc:kill:'' @ show_int pid) [] s of
        (Inl e, s1) \<Rightarrow> (Inl e, s1)
      | (Inr granted, s1) \<Rightarrow>
          (case perform h (ProcessKill pid signal) s1 of
             (Inl e, s2) \<Rightarrow> (Inl e, s2)
           | (Inr v, s2) \<Rightarrow> (Inr Undefined, s2)))"

definition fs_readFile :: "host \<Rightarrow> string \<Rightarrow> object \<Rightarrow> shell \<Rightarrow> (error + jsval) \<times> shell" where
  "fs_readFile h filePath options s =
     (case shell_checkPermission h (''fs:read:'' @ filePath) [] s of
        (Inl e, s1) \<Rightarrow> (Inl e, s1)
      | (Inr granted, s1) \<Rightarrow>
          (case perform h
                  (FsReadFile filePath
                    (case get_prop options ''encoding'' of
                       Str enc \<Rightarrow> if enc = [] then ''utf8'' else enc
                     | other \<Rightarrow> ''utf8'')) s1 of
             (Inl e, s2) \<Rightarrow> (Inl e, s2)
           | (Inr content, s2) \<Rightarrow>
               (Inr (Obj [(''content'', content), (''filePath'', Str filePath)]), s2)))"

definition fs_writeFile :: "host \<Rightarrow> string \<Rightarrow> string \<Rightarrow> shell \<Rightarrow> (error + jsval) \<times> shell" where
  "fs_writeFile h filePath content s =
     (case shell_checkPermission h (''fs:write:'' @ filePath) [] s of
        (Inl e, s1) \<Rightarrow> (Inl e, s1)
      | (Inr granted, s1) \<Rightarrow>
          (case perform h (FsWriteFile filePath content) s1 of
             (Inl e, s2) \<Rightarrow> (Inl e, s2)
           | (Inr v, s2) \<Rightarrow> (Inr (Obj [(''path'', Str filePath)]), s2)))"

definition net_get :: "host \<Rightarrow> string \<Rightarrow> shell \<Rightarrow> (error + jsval) \<times> shell" where
  "net_get h url s =
     (case shell_checkPermission h (''net:http:'' @ url) [] s of
        (Inl e, s1) \<Rightarrow> (Inl e, s1)
      | (Inr granted, s1) \<Rightarrow>
          (case perform h (Fetch ''GET'' url) s1 of
             (Inl e, s2) \<Rightarrow> (Inl e, s2)
           | (Inr response, s2) \<Rightarrow> (Inr (Obj [(''response'', response)]), s2)))"

section \<open>Command engine (src/core/command-engine.js)\<close>

record parsed_command =
  pc_command :: "string option"
  pc_args :: "string list"
  pc_flags :: object

text \<open>
  The loop of \<^verbatim>\<open>parseCommand\<close> over \<^verbatim>\<open>parts[1..]\<close>. In
  \<^verbatim>\<open>const [key, value] = part.slice(2).split('=')\<close> the value is \<^verbatim>\<open>undefined\<close> when there
  is no \<^verbatim>\<open>=\<close>, and \<^verbatim>\<open>value || true\<close> also turns the empty string into \<^verbatim>\<open>true\<close>.
\<close>

fun parse_parts :: "string list \<Rightarrow> string list \<Rightarrow> object \<Rightarrow> string list \<times> object" where
  "parse_parts [] args flags = (args, flags)"
| "parse_parts (part # rest) args flags =
     (if startsWith part ''--'' then
        (case split (CHR ''='') (drop 2 part) of
           [] \<Rightarrow> parse_parts rest args (set_prop ''undefined'' (Bool True) flags)
         | [key] \<Rightarrow> parse_parts rest args (set_prop key (Bool True) flags)
         | key # v # others \<Rightarrow>
             parse_parts rest args (set_prop key (if v = [] then Bool True else Str v) flags))
      else if startsWith part ''-'' then
        parse_parts rest args (set_prop (drop 1 part) (Bool True) flags)
      else parse_parts rest (args @ [part]) flags)"

text \<open>
  \<^verbatim>\<open>input.split(' ').filter(part => part.trim())\<close>: the line is cut at every space
  character, and the pieces that are empty or blank are dropped. \<^verbatim>\<open>parts[0]\<close> of an
  empty array is \<^verbatim>\<open>undefined\<close>.
\<close>

definition parseCommand :: "string \<Rightarrow> parsed_command" where
  "parseCommand input =
     (case filter (\<lambda>part. trim part \<noteq> []) (split (CHR '' '') input) of
        [] \<Rightarrow> \<lparr>pc_command = None, pc_args = [], pc_flags = []\<rparr>
      | c # rest \<Rightarrow>
          (case parse_parts rest [] [] of
             (args, flags) \<Rightarrow> \<lparr>pc_command = Some c, pc_args = args, pc_flags = flags\<rparr>))"

text \<open>\<^verbatim>\<open>s.includes(sub)\<close>.\<close>

fun js_includes :: "string \<Rightarrow> string \<Rightarrow> bool" where
  "js_includes [] sub = (sub = [])"
| "js_includes (c # cs) sub = (startsWith (c # cs) sub \<or> js_includes cs sub)"

text \<open>The test \<^verbatim>\<open>/\w+\.\w+\(/\<close>: a word character, a dot, a run of word characters and
  an opening parenthesis, anywhere in the input.\<close>

definition is_word :: "char \<Rightarrow> bool" where
  "is_word c =
     (c \<in> set ''abcdefghijklmnopqrstuvwxyzABCDEFGHIJKLMNOPQRSTUVWXYZ0123456789_'')"

definition word_then_paren :: "string \<Rightarrow> bool" where
  "word_then_paren s =
     (case s of
        [] \<Rightarrow> False
      | c # rest \<Rightarrow>
          is_word c \<and> (case dropWhile is_word rest of [] \<Rightarrow> False | d # ds \<Rightarrow> d = CHR ''(''))"

fun method_call :: "string \<Rightarrow> bool" where
  "method_call (a # b # rest) =
     ((is_word a \<and> b = CHR ''.'' \<and> word_then_paren rest) \<or> method_call (b # rest))"
| "method_call s = False"

definition isObjectPipelineMode :: "string \<Rightarrow> bool" where
  "isObjectPipelineMode input =
     (method_call input \<or> js_includes input ''.filter('' \<or> js_includes input ''.map('' \<or>
      js_includes input ''.reduce('')"

definition vars_of :: "shell \<Rightarrow> vars" where
  "vars_of s = (currentDirectory s, environment s, aliases s)"

definition set_vars :: "vars \<Rightarrow> shell \<Rightarrow> shell" where
  "set_vars v s =
     (case v of (cwd, env, al) \<Rightarrow> s\<lparr>currentDirectory := cwd, environment := env, aliases := al\<rparr>)"

definition run_host :: "outcome \<Rightarrow> shell \<Rightarrow> (error + jsval) \<times> shell" where
  "run_host out s = (fst out, set_vars (snd out) s)"

definition show_code :: "int option \<Rightarrow> string" where
  "show_code code = (case code of None \<Rightarrow> ''null'' | Some n \<Rightarrow> show_int n)"

text \<open>
  \<^verbatim>\<open>executeSystemCommand\<close>. \<^verbatim>\<open>spawn(undefined, ...)\<close> throws inside the promise executor,
  which rejects the promise. Without \<^verbatim>\<open>context.capture\<close> the child inherits the
  terminal and both buffers stay empty.
\<close>

definition executeSystemCommand ::
  "host \<Rightarrow> string option \<Rightarrow> string list \<Rightarrow> object \<Rightarrow> object \<Rightarrow> shell \<Rightarrow> (error + jsval) \<times> shell" where
  "executeSystemCommand h command args flags context s =
     (case command of
        None \<Rightarrow>
          (Inl (TypeError (''The '' @ [CHR 0x22] @ ''file'' @ [CHR 0x22] @
                           '' argument must be of type string. Received undefined'')), s)
      | Some cmd \<Rightarrow>
          (let capture = truthy (get_prop context ''capture'');
               s1 = s\<lparr>effects := effects s @
                      [Spawned cmd args capture (currentDirectory s) (environment s)]\<rparr>
           in case host_spawn h cmd args capture (currentDirectory s) (environment s) of
                SpawnError e \<Rightarrow> (Inl e, s1)
              | Close code out err \<Rightarrow>
                  (let stdout = (if capture then out else []);
                       stderr = (if capture then err else [])
                   in if code = Some 0 then
                        (Inr (Obj [(''success'', Bool True), (''code'', Num 0),
                                   (''stdout'', Str (trim stdout)), (''stderr'', Str (trim stderr))]),
                         s1)
                      else
                        (Inl (Error (''Command failed with code '' @ show_code code @ '': '' @ stderr)),
                         s1))))"

fun checkPermissions :: "host \<Rightarrow> string list \<Rightarrow> object \<Rightarrow> shell \<Rightarrow> (error + unit) \<times> shell" where
  "checkPermissions h [] context s = (Inr (), s)"
| "checkPermissions h (permission # rest) context s =
     (case shell_checkPermission h permission context s of
        (Inl e, s1) \<Rightarrow> (Inl e, s1)
      | (Inr granted, s1) \<Rightarrow>
          if granted then checkPermissions h rest context s1
          else (Inl (Error (''Permission denied: '' @ permission)), s1))"

text \<open>\<^verbatim>\<open>this.aliases.get(command) || command\<close>: an alias that is the empty string is skipped.\<close>

definition resolve_alias :: "(string \<times> string) list \<Rightarrow> string option \<Rightarrow> string option" where
  "resolve_alias al command =
     (case command of
        None \<Rightarrow> None
      | Some c \<Rightarrow> (case map_of al c of None \<Rightarrow> Some c | Some a \<Rightarrow> if a = [] then Some c else Some a))"

definition executeSingleCommand ::
  "host \<Rightarrow> string \<Rightarrow> object \<Rightarrow> shell \<Rightarrow> (error + jsval) \<times> shell" where
  "executeSingleCommand h input context s =
     (let p = parseCommand input;
          resolvedCommand = resolve_alias (engine_aliases (commandEngine s)) (pc_command p)
      in case resolvedCommand of
           None \<Rightarrow> executeSystemCommand h None (pc_args p) (pc_flags p) context s
         | Some name \<Rightarrow>
             (case map_of (commands (commandEngine s)) name of
                None \<Rightarrow> executeSystemCommand h (Some name) (pc_args p) (pc_flags p) context s
              | Some required \<Rightarrow>
                  (case checkPermissions h required context s of
                     (Inl e, s1) \<Rightarrow> (Inl e, s1)
                   | (Inr u, s1) \<Rightarrow>
                       (case run_host
                               (host_handler h name
                                 \<lparr>inv_command = name, inv_args = pc_args p, inv_flags = pc_flags p,
                                  inv_context = context\<rparr> (vars_of s1)) s1 of
                          (Inl e, s2) \<Rightarrow>
                            (Inl (Error (''Command '' @ [CHR 0x27] @ name @ [CHR 0x27] @
                                         '' failed: '' @ message e)), s2)
                        | (Inr result, s2) \<Rightarrow> (Inr result, s2)))))"

text \<open>\<^verbatim>\<open>input.split('|').map(cmd => cmd.trim())\<close>.\<close>

definition pipeline_stages :: "string \<Rightarrow> string list" where
  "pipeline_stages input = map trim (split (CHR ''|'') input)"

text \<open>The loop of \<^verbatim>\<open>executePipeline\<close>; \<open>i\<close> is the index of the next stage, \<open>n\<close> the
  number of stages.\<close>

fun run_stages ::
  "host \<Rightarrow> string list \<Rightarrow> nat \<Rightarrow> nat \<Rightarrow> object \<Rightarrow> jsval \<Rightarrow> shell \<Rightarrow> (error + jsval) \<times> shell" where
  "run_stages h [] i n context result s = (Inr result, s)"
| "run_stages h (command # rest) i n context result s =
     (case executeSingleCommand h command
             (set_prop ''pipelineLength'' (Num (int n))
               (set_prop ''pipelineIndex'' (Num (int i))
                 (set_prop ''pipelineInput'' result context))) s of
        (Inl e, s1) \<Rightarrow> (Inl e, s1)
      | (Inr r, s1) \<Rightarrow> run_stages h rest (Suc i) n context r s1)"

definition executePipeline :: "host \<Rightarrow> string \<Rightarrow> object \<Rightarrow> shell \<Rightarrow> (error + jsval) \<times> shell" where
  "executePipeline h input context s =
     run_stages h (pipeline_stages input) 0 (length (pipeline_stages input)) context Null s"

definition executeObjectPipeline ::
  "host \<Rightarrow> string \<Rightarrow> object \<Rightarrow> shell \<Rightarrow> (error + jsval) \<times> shell" where
  "executeObjectPipeline h input context s =
     (case run_host (host_eval h input context (vars_of s)) s of
        (Inl e, s1) \<Rightarrow> (Inl (Error (''Object pipeline execution failed: '' @ message e)), s1)
      | (Inr result, s1) \<Rightarrow> (Inr result, s1))"

definition push_history :: "history_entry \<Rightarrow> shell \<Rightarrow> shell" where
  "push_history entry s =
     s\<lparr>commandEngine := (commandEngine s)
         \<lparr>commandHistory := commandHistory (commandEngine s) @ [entry]\<rparr>\<rparr>"

definition execute :: "host \<Rightarrow> string \<Rightarrow> object \<Rightarrow> shell \<Rightarrow> (error + jsval) \<times> shell" where
  "execute h input context s =
     (let trimmedInput = trim input
      in if trimmedInput = [] then (Inr Null, s)
         else
           (case date_now h s of
              (now, s1) \<Rightarrow>
                (let s2 = push_history
                       \<lparr>he_input = trimmedInput, he_timestamp = now, he_context = context\<rparr> s1
                 in if CHR ''|'' \<in> set trimmedInput then executePipeline h trimmedInput context s2
                    else if isObjectPipelineMode trimmedInput then
                      executeObjectPipeline h trimmedInput context s2
                    else executeSingleCommand h trimmedInput context s2)))"

section \<open>Execution recorder (src/core/execution-recorder.js)\<close>

text \<open>
  Reading and updating a recording object through its reference. A reference always
  points into the store; a state where it does not is no state of the program, and reading
  through it is taken as the \<^verbatim>\<open>TypeError\<close> of a null reference.
\<close>

definition null_reference :: error where
  "null_reference = TypeError ''Cannot read properties of null''"

definition deref :: "recorder \<Rightarrow> recording_obj option" where
  "deref r =
     (case currentRecording r of
        None \<Rightarrow> None
      | Some ref \<Rightarrow> if ref < length (objects r) then Some (objects r ! ref) else None)"

definition modify_current :: "(recording_obj \<Rightarrow> recording_obj) \<Rightarrow> recorder \<Rightarrow> recorder" where
  "modify_current f r =
     (case currentRecording r of
        None \<Rightarrow> r
      | Some ref \<Rightarrow>
          if ref < length (objects r) then r\<lparr>objects := (objects r)[ref := f (objects r ! ref)]\<rparr>
          else r)"

definition captureSystemState :: "host \<Rightarrow> shell \<Rightarrow> jsval \<times> shell" where
  "captureSystemState h s = (host_system h (ticks s), s\<lparr>ticks := Suc (ticks s)\<rparr>)"

definition captureShellState :: "shell \<Rightarrow> shell_capture" where
  "captureShellState s =
     \<lparr>cap_currentDirectory = currentDirectory s, cap_environment = environment s,
      cap_aliases = aliases s, cap_stats = stats s, cap_plugins = plugins s,
      cap_isRunning = isRunning s\<rparr>"

text \<open>\<^verbatim>\<open>ExecutionRecorder.createSnapshot(type, description)\<close>.\<close>

definition recorder_createSnapshot ::
  "host \<Rightarrow> string \<Rightarrow> string \<Rightarrow> shell \<Rightarrow> (error + snapshot_record) \<times> shell" where
  "recorder_createSnapshot h snapshot_type description s =
     (case date_now h s of
        (now, s1) \<Rightarrow>
          (case captureSystemState h s1 of
             (sys, s2) \<Rightarrow>
               (let r = executionRecorder s2;
                    snapshot =
                      \<lparr>sn_id = length (snapshots r) + 1, sn_timestamp = now,
                       sn_type = snapshot_type, sn_description = description,
                       sn_systemState = sys, sn_shellState = captureShellState s2\<rparr>;
                    r1 = r\<lparr>snapshots := snapshots r @ [snapshot]\<rparr>
                in if recording r1 then
                     (case deref r1 of
                        None \<Rightarrow> (Inl null_reference, s2\<lparr>executionRecorder := r1\<rparr>)
                      | Some obj \<Rightarrow>
                          (Inr snapshot,
                           s2\<lparr>executionRecorder :=
                                modify_current
                                  (\<lambda>obj. obj\<lparr>rec_snapshots := rec_snapshots obj @ [snapshot]\<rparr>) r1\<rparr>))
                   else (Inr snapshot, s2\<lparr>executionRecorder := r1\<rparr>))))"

text \<open>
  \<^verbatim>\<open>startRecording(name)\<close>; \<open>name\<close> is \<open>None\<close> for \<^verbatim>\<open>null\<close> or \<^verbatim>\<open>undefined\<close>. The
  clock is read for the default name only when no name is given. The constant
  \<^verbatim>\<open>metadata\<close> of the recording is left out.
\<close>

definition recording_name :: "host \<Rightarrow> string option \<Rightarrow> nat \<Rightarrow> shell \<Rightarrow> string \<times> shell" where
  "recording_name h name rid s =
     (if name = None \<or> name = Some [] then
        (case date_now h s of
           (now, s1) \<Rightarrow> (''recording_'' @ show_int (int rid) @ ''_'' @ show_int now, s1))
      else (the name, s))"

definition startRecording :: "host \<Rightarrow> string option \<Rightarrow> shell \<Rightarrow> (error + unit) \<times> shell" where
  "startRecording h name s =
     (if recording (executionRecorder s) then (Inl (Error ''Recording is already in progress''), s)
      else
        (let rid = Suc (recordingId (executionRecorder s))
         in case recording_name h name rid s of
              (recordingName, s1) \<Rightarrow>
                (case date_now h s1 of
                   (startTime, s2) \<Rightarrow>
                     (let r = executionRecorder s2;
                          ref = length (objects r);
                          obj = \<lparr>rec_id = rid, rec_name = recordingName, rec_startTime = startTime,
                                 rec_endTime = None, rec_duration = None, rec_commands = [],
                                 rec_snapshots = []\<rparr>;
                          s3 = s2\<lparr>executionRecorder :=
                                 r\<lparr>recording := True,
                                   recordings := AList.update rid ref (recordings r),
                                   currentRecording := Some ref,
                                   recordingId := rid,
                                   objects := objects r @ [obj]\<rparr>\<rparr>
                      in case recorder_createSnapshot h ''recording_start'' [] s3 of
                           (Inl e, s4) \<Rightarrow> (Inl e, s4)
                         | (Inr snapshot, s4) \<Rightarrow> (Inr (), s4)))))"

text \<open>
  \<^verbatim>\<open>saveRecording\<close> writes the JSON of the object to
  \<^verbatim>\<open><recordingsDir>/<name>.json\<close>; a failure of the file system is caught and logged.
\<close>

definition saveRecording :: "host \<Rightarrow> recording_obj \<Rightarrow> shell \<Rightarrow> shell" where
  "saveRecording h obj s =
     snd (perform h
            (SaveRecording (recordingsDir (executionRecorder s) @ ''/'' @ rec_name obj @ ''.json'') obj)
            s)"

definition stopRecording :: "host \<Rightarrow> shell \<Rightarrow> (error + recording_obj) \<times> shell" where
  "stopRecording h s =
     (if \<not> recording (executionRecorder s) then (Inl (Error ''No recording in progress''), s)
      else
        (case deref (executionRecorder s) of
           None \<Rightarrow> (Inl null_reference, s)
         | Some obj0 \<Rightarrow>
             (case date_now h s of
                (endTime, s1) \<Rightarrow>
                  (let s2 = s1\<lparr>executionRecorder :=
                              modify_current
                                (\<lambda>obj. obj\<lparr>rec_endTime := Some endTime,
                                           rec_duration := Some (endTime - rec_startTime obj)\<rparr>)
                                (executionRecorder s1)\<rparr>
                   in case recorder_createSnapshot h ''recording_end'' [] s2 of
                        (Inl e, s3) \<Rightarrow> (Inl e, s3)
                      | (Inr snapshot, s3) \<Rightarrow>
                          (case deref (executionRecorder s3) of
                             None \<Rightarrow> (Inl null_reference, s3)
                           | Some obj \<Rightarrow>
                               (let s4 = saveRecording h obj s3
                                in (Inr obj,
                                    s4\<lparr>executionRecorder :=
                                         (executionRecorder s4)
                                           \<lparr>recording := False, currentRecording := None\<rparr>\<rparr>)))))))"

text \<open>\<^verbatim>\<open>recordCommand(input, context)\<close>: the new entry has no \<^verbatim>\<open>result\<close>, \<^verbatim>\<open>error\<close> or
  \<^verbatim>\<open>executionTime\<close>.\<close>

definition recordCommand :: "host \<Rightarrow> string \<Rightarrow> object \<Rightarrow> shell \<Rightarrow> (error + unit) \<times> shell" where
  "recordCommand h input context s =
     (if \<not> recording (executionRecorder s) then (Inr (), s)
      else
        (case deref (executionRecorder s) of
           None \<Rightarrow> (Inl null_reference, s)
         | Some obj0 \<Rightarrow>
             (case date_now h s of
                (now, s1) \<Rightarrow>
                  (case captureSystemState h s1 of
                     (sys, s2) \<Rightarrow>
                       (let commandRecord =
                              \<lparr>cr_id = length (rec_commands obj0) + 1, cr_timestamp = now,
                               cr_input = input, cr_context = context, cr_systemState = sys,
                               cr_result = None, cr_error = None, cr_executionTime = None\<rparr>
                        in (Inr (),
                            s2\<lparr>executionRecorder :=
                                 modify_current
                                   (\<lambda>obj. obj\<lparr>rec_commands := rec_commands obj @ [commandRecord]\<rparr>)
                                   (executionRecorder s2)\<rparr>))))))"

text \<open>\<^verbatim>\<open>recordCommandResult(commandId, result, error)\<close> fills in the first entry with that
  id. Nothing in the repository calls it.\<close>

fun update_first :: "('a \<Rightarrow> bool) \<Rightarrow> ('a \<Rightarrow> 'a) \<Rightarrow> 'a list \<Rightarrow> 'a list" where
  "update_first P f [] = []"
| "update_first P f (x # xs) = (if P x then f x # xs else x # update_first P f xs)"

definition recordCommandResult ::
  "host \<Rightarrow> nat \<Rightarrow> jsval \<Rightarrow> error option \<Rightarrow> shell \<Rightarrow> (error + unit) \<times> shell" where
  "recordCommandResult h commandId result err s =
     (if \<not> recording (executionRecorder s) then (Inr (), s)
      else
        (case deref (executionRecorder s) of
           None \<Rightarrow> (Inl null_reference, s)
         | Some obj0 \<Rightarrow>
             (case find (\<lambda>cmd. cr_id cmd = commandId) (rec_commands obj0) of
                None \<Rightarrow> (Inr (), s)
              | Some command \<Rightarrow>
                  (case date_now h s of
                     (now, s1) \<Rightarrow>
                       (Inr (),
                        s1\<lparr>executionRecorder :=
                             modify_current
                               (\<lambda>obj. obj\<lparr>rec_commands :=
                                   update_first (\<lambda>cmd. cr_id cmd = commandId)
                                     (\<lambda>cmd. cmd\<lparr>cr_result := Some result, cr_error := Some err,
                                                cr_executionTime := Some (now - cr_timestamp cmd)\<rparr>)
                                     (rec_commands obj)\<rparr>)
                               (executionRecorder s1)\<rparr>)))))"

section \<open>The shell (src/core/shell.js)\<close>

text \<open>
  \<^verbatim>\<open>NexusShell.executeCommand(input, context)\<close>. The events it emits are left out: their
  listeners (performance monitor, debug output) keep counters of their own.
\<close>

definition count_command :: "shell \<Rightarrow> shell" where
  "count_command s = s\<lparr>stats := (stats s)\<lparr>commandsExecuted := Suc (commandsExecuted (stats s))\<rparr>\<rparr>"

definition update_stats :: "host \<Rightarrow> int \<Rightarrow> shell \<Rightarrow> shell" where
  "update_stats h executionTime s =
     s\<lparr>stats := (stats s)
         \<lparr>totalExecutionTime := totalExecutionTime (stats s) + executionTime,
          memoryUsage := host_heapUsed h (ticks s)\<rparr>\<rparr>"

definition executeCommand :: "host \<Rightarrow> string \<Rightarrow> object \<Rightarrow> shell \<Rightarrow> (error + jsval) \<times> shell" where
  "executeCommand h input context s =
     (if \<not> isRunning s then (Inl (Error ''Shell is not running''), s)
      else
        (case date_now h s of
           (startTime, s1) \<Rightarrow>
             (case shell_checkPermission h ''command:execute'' [(''input'', Str input)]
                     (count_command s1) of
                (Inl e, s3) \<Rightarrow> (Inl e, s3)
              | (Inr granted, s3) \<Rightarrow>
                  (case (if recording (executionRecorder s3) then recordCommand h input context s3
                         else (Inr (), s3)) of
                     (Inl e, s4) \<Rightarrow> (Inl e, s4)
                   | (Inr u, s4) \<Rightarrow>
                       (case execute h input context s4 of
                          (Inl e, s5) \<Rightarrow> (Inl e, s5)
                        | (Inr result, s5) \<Rightarrow>
                            (case date_now h s5 of
                               (endTime, s6) \<Rightarrow>
                                 (Inr result, update_stats h (endTime - startTime) s6)))))))"

definition createSnapshot :: "host \<Rightarrow> shell \<Rightarrow> tx_snapshot \<times> shell" where
  "createSnapshot h s =
     (case date_now h s of
        (now, s1) \<Rightarrow>
          (\<lparr>ts_timestamp = now, ts_currentDirectory = currentDirectory s1,
            ts_environment = environment s1, ts_aliases = aliases s1\<rparr>, s1))"

definition restoreSnapshot :: "tx_snapshot \<Rightarrow> shell \<Rightarrow> shell" where
  "restoreSnapshot snapshot s =
     s\<lparr>currentDirectory := ts_currentDirectory snapshot,
       environment := ts_environment snapshot,
       aliases := ts_aliases snapshot\<rparr>"

definition rollbackTransaction :: "host \<Rightarrow> string \<Rightarrow> shell \<Rightarrow> (error + unit) \<times> shell" where
  "rollbackTransaction h transactionId s =
     (case find (\<lambda>tx. tx_id tx = transactionId) (transactionStack s) of
        None \<Rightarrow> (Inl (Error (''Transaction '' @ transactionId @ '' not found'')), s)
      | Some tx \<Rightarrow>
          (let s1 = restoreSnapshot (tx_snapshot tx) s
           in case tx_onRollback tx of
                None \<Rightarrow> (Inr (), s1)
              | Some callback \<Rightarrow>
                  (case callback (tx_id tx) (tx_snapshot tx) (tx_commands tx) of
                     None \<Rightarrow> (Inr (), s1)
                   | Some e \<Rightarrow> (Inl e, s1))))"

text \<open>The loop of \<^verbatim>\<open>executeTransaction\<close>: each command runs with the default context.\<close>

fun run_commands :: "host \<Rightarrow> string list \<Rightarrow> shell \<Rightarrow> (error + jsval list) \<times> shell" where
  "run_commands h [] s = (Inr [], s)"
| "run_commands h (command # rest) s =
     (case executeCommand h command [] s of
        (Inl e, s1) \<Rightarrow> (Inl e, s1)
      | (Inr result, s1) \<Rightarrow>
          (case run_commands h rest s1 of
             (Inl e, s2) \<Rightarrow> (Inl e, s2)
           | (Inr results, s2) \<Rightarrow> (Inr (result # results), s2)))"

text \<open>
  \<^verbatim>\<open>executeTransaction(commands, options)\<close>; \<open>rnd\<close> is the string
  \<^verbatim>\<open>Math.random().toString(36).substr(2, 9)\<close> and \<open>onRollback\<close> is
  \<^verbatim>\<open>options.onRollback\<close>. An error raised by the rollback replaces the error of the command.

  The function is asynchronous: it pushes its entry, awaits its commands one by one, and
  then pops the stack or rolls back. While it awaits, another call of the shell may run, so
  the call is three steps: \<open>begin_transaction\<close> (up to the push), the loop
  \<open>run_commands\<close>, and \<open>end_transaction\<close> (the \<^verbatim>\<open>pop()\<close> after the loop, or the
  \<^verbatim>\<open>catch\<close> block). \<open>executeTransaction\<close> is the three steps with nothing in between;
  two overlapping calls are their steps in the order the event loop takes them. (A call
  runs up to the permission check of its first command before it first yields; the steps
  put that check with the loop, which moves clock reads and audit entries only.)
  \<^verbatim>\<open>pop()\<close> removes the last entry of the stack, whichever call pushed it, and the
  \<^verbatim>\<open>catch\<close> block removes no entry.
\<close>

definition transaction_id :: "host \<Rightarrow> string \<Rightarrow> shell \<Rightarrow> string" where
  "transaction_id h rnd s = ''tx_'' @ show_int (host_clock h (ticks s)) @ ''_'' @ rnd"

definition begin_transaction ::
  "host \<Rightarrow> string \<Rightarrow> string list \<Rightarrow> (string \<Rightarrow> tx_snapshot \<Rightarrow> string list \<Rightarrow> error option) option \<Rightarrow>
   shell \<Rightarrow> string \<times> shell" where
  "begin_transaction h rnd cmds onRollback s =
     (case date_now h s of
        (now, s1) \<Rightarrow>
          (let transactionId = ''tx_'' @ show_int now @ ''_'' @ rnd
           in case createSnapshot h s1 of
                (snapshot, s2) \<Rightarrow>
                  (transactionId,
                   s2\<lparr>transactionStack := transactionStack s2 @
                        [\<lparr>tx_id = transactionId, tx_snapshot = snapshot,
                          tx_commands = cmds, tx_onRollback = onRollback\<rparr>]\<rparr>)))"

definition end_transaction ::
  "host \<Rightarrow> string \<Rightarrow> (error + jsval list) \<times> shell \<Rightarrow> (error + jsval list) \<times> shell" where
  "end_transaction h transactionId outcome =
     (case outcome of
        (Inr results, s4) \<Rightarrow>
          (Inr results, s4\<lparr>transactionStack := butlast (transactionStack s4)\<rparr>)
      | (Inl e, s4) \<Rightarrow>
          (case rollbackTransaction h transactionId s4 of
             (Inl e', s5) \<Rightarrow> (Inl e', s5)
           | (Inr u, s5) \<Rightarrow> (Inl e, s5)))"

definition executeTransaction ::
  "host \<Rightarrow> string \<Rightarrow> string list \<Rightarrow> (string \<Rightarrow> tx_snapshot \<Rightarrow> string list \<Rightarrow> error option) option \<Rightarrow>
   shell \<Rightarrow> (error + jsval list) \<times> shell" where
  "executeTransaction h rnd cmds onRollback s =
     (case begin_transaction h rnd cmds onRollback s of
        (transactionId, s3) \<Rightarrow> end_transaction h transactionId (run_commands h cmds s3))"

section \<open>A concrete host and a started shell\<close>

text \<open>
  For the concrete evaluations: a host whose clock counts 1000, 1001, ..., whose children
  exit with code 0 and no output, whose handlers return a string and leave the shell
  variables alone, and a started shell in \<^verbatim>\<open>/home/u\<close> with the commands \<^verbatim>\<open>pwd\<close> and
  \<^verbatim>\<open>date\<close> registered.
\<close>

definition host0 :: host where
  "host0 =
     \<lparr>host_regexp = regexp_fragment,
      host_clock = (\<lambda>n. 1000 + int n),
      host_system = (\<lambda>n. Obj [(''pid'', Num 4242)]),
      host_heapUsed = (\<lambda>n. 0),
      host_handler = (\<lambda>name inv v. (Inr (Str (''output of '' @ name)), v)),
      host_eval = (\<lambda>script context v. (Inr Undefined, v)),
      host_spawn = (\<lambda>cmd args capture cwd env. Close (Some 0) [] []),
      host_call = (\<lambda>op. Inr Undefined)\<rparr>"

definition sandbox_context :: "string \<Rightarrow> security_context" where
  "sandbox_context cwd =
     (case applyPolicy ''sandbox'' (initialize cwd new_security_context) of
        Inl e \<Rightarrow> initialize cwd new_security_context
      | Inr sc \<Rightarrow> sc)"

definition shell0 :: shell where
  "shell0 =
     \<lparr>isRunning = True, currentDirectory = ''/home/u'', environment = [(''HOME'', ''/home/u'')],
      aliases = [], plugins = [], transactionStack = [],
      stats = \<lparr>commandsExecuted = 0, totalExecutionTime = 0, memoryUsage = 0, cacheHits = 0,
                cacheMisses = 0\<rparr>,
      securityContext = sandbox_context ''/home/u'',
      commandEngine = \<lparr>commands = [(''pwd'', []), (''date'', [])], engine_aliases = [],
                        commandHistory = []\<rparr>,
      executionRecorder = \<lparr>recording = False, recordings = [], currentRecording = None,
                            recordingId = 0, snapshots = [],
                            recordingsDir = ''/home/u/.nexus/recordings'', objects = []\<rparr>,
      ticks = 0, effects = []\<rparr>"

text \<open>A host as \<open>host0\<close> whose children write to stderr and exit with code 1.\<close>

definition host_failing :: host where
  "host_failing = host0\<lparr>host_spawn := (\<lambda>cmd args capture cwd env. Close (Some 1) [] ''boom'')\<rparr>"

text \<open>A host as \<open>host0\<close> where no binary is found.\<close>

definition host_missing :: host where
  "host_missing =
     host0\<lparr>host_spawn := (\<lambda>cmd args capture cwd env. SpawnError (Error ''spawn ENOENT''))\<rparr>"

text \<open>
  A host as \<open>host0\<close> whose handler of \<^verbatim>\<open>cd\<close> moves the shell to \<^verbatim>\<open>/tmp\<close> and whose other
  handlers raise, and a started shell with the commands \<^verbatim>\<open>cd\<close> and \<^verbatim>\<open>fail\<close> registered.
\<close>

definition host_tx :: host where
  "host_tx =
     host0\<lparr>host_handler :=
       (\<lambda>name inv v.
          if name = ''cd'' then (Inr (Str ''changed''), (''/tmp'', fst (snd v), snd (snd v)))
          else (Inl (Error ''boom''), v))\<rparr>"

definition shell_tx :: shell where
  "shell_tx =
     shell0\<lparr>commandEngine :=
       \<lparr>commands = [(''cd'', []), (''fail'', [])], engine_aliases = [], commandHistory = []\<rparr>\<rparr>"

text \<open>A host as \<open>host0\<close> whose children exit with code 0 after writing to both streams.\<close>

definition host_echo :: host where
  "host_echo =
     host0\<lparr>host_spawn :=
       (\<lambda>cmd args capture cwd env. Close (Some 0) (''hello'' @ [CHR 0x0A]) ''  warn '')\<rparr>"

text \<open>
  Two overlapping transactions. The host has the handlers of the repository's \<^verbatim>\<open>pwd\<close>
  (returns the current directory) and \<^verbatim>\<open>cd\<close> (moves to \<^verbatim>\<open>/tmp\<close>, and raises for any other
  directory, none of which exists). The call \<open>A\<close> runs \<^verbatim>\<open>pwd\<close>; the call \<open>B\<close>, made
  while \<open>A\<close> awaits, runs \<^verbatim>\<open>cd /tmp\<close> and \<^verbatim>\<open>cd /nonexistent\<close>. \<open>A\<close> needs no file system
  and ends first; \<open>B\<close> ends after it.
\<close>

definition host_overlap :: host where
  "host_overlap =
     host0\<lparr>host_handler :=
       (\<lambda>name inv v.
          if name = ''pwd'' then (Inr (Str (fst v)), v)
          else if name = ''cd'' \<and> inv_args inv = [''/tmp''] then
            (Inr (Str ''Changed directory to: /tmp''), (''/tmp'', fst (snd v), snd (snd v)))
          else (Inl (Error ''Cannot change directory''), v))\<rparr>"

definition shell_overlap :: shell where
  "shell_overlap =
     shell0\<lparr>commandEngine :=
       \<lparr>commands = [(''pwd'', []), (''cd'', [])], engine_aliases = [], commandHistory = []\<rparr>\<rparr>"

definition overlap_A_begun :: "string \<times> shell" where
  "overlap_A_begun = begin_transaction host_overlap ''aaa'' [''pwd''] None shell_overlap"

definition overlap_B_begun :: "string \<times> shell" where
  "overlap_B_begun =
     begin_transaction host_overlap ''bbb'' [''cd /tmp'', ''cd /nonexistent''] None
       (snd overlap_A_begun)"

definition overlap_A_ended :: "(error + jsval list) \<times> shell" where
  "overlap_A_ended =
     end_transaction host_overlap (fst overlap_A_begun)
       (run_commands host_overlap [''pwd''] (snd overlap_B_begun))"

definition overlap_B_ended :: "(error + jsval list) \<times> shell" where
  "overlap_B_ended =
     end_transaction host_overlap (fst overlap_B_begun)
       (run_commands host_overlap [''cd /tmp'', ''cd /nonexistent''] (snd overlap_A_ended))"

text \<open>
  The part of the shell that the engine leaves alone when it runs a line: it writes the
  history, the audit log, the clock count, the host trace and, through handlers and
  scripts, the shell variables.
\<close>

definition kept ::
  "shell \<Rightarrow> bool \<times> string list \<times> transaction list \<times> shell_stats \<times> recorder \<times>
     (string \<times> bool) list \<times> (string \<times> string list) list \<times> (string \<times> string) list" where
  "kept s =
     (isRunning s, plugins s, transactionStack s, stats s, executionRecorder s,
      permissions (securityContext s), commands (commandEngine s),
      engine_aliases (commandEngine s))"

section \<open>Tokenisation\<close>

lemma parse_parts_args:
  "fst (parse_parts rest args flags) = args @ filter (\<lambda>part. \<not> startsWith part ''-'') rest"
proof (induction rest arbitrary: args flags)
  case Nil
  then show ?case by simp
next
  case (Cons part rest)
  have dd: "startsWith part ''--'' \<Longrightarrow> startsWith part ''-''"
    by (cases part) (auto simp: startsWith_def split: list.splits)
  show ?case
    using Cons.IH dd by (simp split: list.splits)
qed

text \<open>
  C3, at the line \<^verbatim>\<open>ls "a b".txt\<close>: \<^verbatim>\<open>parseCommand\<close> cuts the quoted token at its space
  and keeps the quote characters, so the line has the two positional arguments \<^verbatim>\<open>"a\<close> and
  \<^verbatim>\<open>b".txt\<close>, not the one argument \<^verbatim>\<open>a b.txt\<close>; the fully quoted \<^verbatim>\<open>ls "a b"\<close> has the two
  arguments \<^verbatim>\<open>"a\<close> and \<^verbatim>\<open>b"\<close>. For every line, the positional arguments are the non-blank
  pieces between space characters, after the first, that do not start with \<^verbatim>\<open>-\<close>, stored as
  they are. The claim asks for the whitespace inside quotes to be kept and the token to be
  stored unquoted, as the tokenizer of the native parser does.
\<close>

theorem C3_tokens_are_space_separated_pieces:
  \<open>pc_args (parseCommand input) =
     filter (\<lambda>part. \<not> startsWith part ''-'')
       (tl (filter (\<lambda>part. trim part \<noteq> []) (split (CHR '' '') input)))
   \<and> parseCommand ''ls "a b".txt'' =
       \<lparr>pc_command = Some ''ls'', pc_args = [''"a'', ''b".txt''], pc_flags = []\<rparr>
   \<and> pc_args (parseCommand ''ls "a b".txt'') \<noteq> [''a b.txt'']
   \<and> parseCommand ''ls "a b"'' =
       \<lparr>pc_command = Some ''ls'', pc_args = [''"a'', ''b"''], pc_flags = []\<rparr>\<close>
proof (intro conjI)
  show "pc_args (parseCommand input) =
     filter (\<lambda>part. \<not> startsWith part ''-'')
       (tl (filter (\<lambda>part. trim part \<noteq> []) (split (CHR '' '') input)))"
  proof (cases "filter (\<lambda>part. trim part \<noteq> []) (split (CHR '' '') input)")
    case Nil
    then show ?thesis by (simp add: parseCommand_def)
  next
    case (Cons c rest)
    have "fst (parse_parts rest [] []) = filter (\<lambda>part. \<not> startsWith part ''-'') rest"
      using parse_parts_args[of rest "[]" "[]"] by simp
    then show ?thesis using Cons by (auto simp: parseCommand_def split: prod.splits)
  qed
  show \<open>parseCommand ''ls "a b".txt'' =
       \<lparr>pc_command = Some ''ls'', pc_args = [''"a'', ''b".txt''], pc_flags = []\<rparr>\<close>
    by (simp add: parseCommand_def trim_def is_js_space_def startsWith_def)
  show \<open>pc_args (parseCommand ''ls "a b".txt'') \<noteq> [''a b.txt'']\<close>
    by (simp add: parseCommand_def trim_def is_js_space_def startsWith_def)
  show \<open>parseCommand ''ls "a b"'' =
       \<lparr>pc_command = Some ''ls'', pc_args = [''"a'', ''b"''], pc_flags = []\<rparr>\<close>
    by (simp add: parseCommand_def trim_def is_js_space_def startsWith_def)
qed

section \<open>Blank input\<close>

lemma trim_blank: "(\<forall>c\<in>set input. is_js_space c) \<Longrightarrow> trim input = []"
  by (auto simp: trim_def dest: set_dropWhileD)

text \<open>
  C10: for every input that is empty or consists of whitespace only, \<^verbatim>\<open>execute\<close> returns
  \<^verbatim>\<open>null\<close> and leaves the shell as it was: nothing is dispatched and the history gets
  no entry.
\<close>

theorem C10_blank_input_returns_null:
  "\<forall>c\<in>set input. is_js_space c \<Longrightarrow> execute h input context s = (Inr Null, s)"
  by (simp add: execute_def trim_blank)

theorem C10_blank_input_witness:
  "execute host0 ''   '' [] shell0 = (Inr Null, shell0)"
proof -
  have b: "\<forall>c\<in>set ''   ''. is_js_space c" by (simp add: is_js_space_def)
  from C10_blank_input_returns_null[OF b] show ?thesis .
qed

section \<open>Recorder\<close>

lemma startRecording_sets_flag:
  "\<not> recording (executionRecorder s) \<Longrightarrow>
   recording (executionRecorder (snd (startRecording h name s)))"
  by (simp add: startRecording_def recording_name_def date_now_def recorder_createSnapshot_def
      captureSystemState_def deref_def modify_current_def Let_def split: prod.splits)

text \<open>
  C9: \<^verbatim>\<open>startRecording\<close> while a recording is in progress raises an error and leaves the
  recorder, and the rest of the shell, unchanged: a second recording never starts beside
  the current one.
\<close>

theorem C9_start_while_recording_rejected:
  "recording (executionRecorder s) \<Longrightarrow>
   startRecording h name s = (Inl (Error ''Recording is already in progress''), s)"
  by (simp add: startRecording_def)

theorem C9_start_while_recording_witness:
  "recording (executionRecorder (snd (startRecording host0 (Some ''r1'') shell0))) \<and>
   startRecording host0 (Some ''r2'') (snd (startRecording host0 (Some ''r1'') shell0)) =
     (Inl (Error ''Recording is already in progress''), snd (startRecording host0 (Some ''r1'') shell0))"
proof -
  have "\<not> recording (executionRecorder shell0)" by (simp add: shell0_def)
  then have r: "recording (executionRecorder (snd (startRecording host0 (Some ''r1'') shell0)))"
    by (rule startRecording_sets_flag)
  from C9_start_while_recording_rejected[OF r] r show ?thesis by blast
qed

section \<open>Pipelines\<close>

lemma split_length: "length (split sep s) = Suc (length (filter (\<lambda>c. c = sep) s))"
  by (induction s) (auto split: list.splits)

lemma pipeline_stages_length:
  "length (pipeline_stages input) = Suc (length (filter (\<lambda>c. c = CHR ''|'') input))"
  by (simp add: pipeline_stages_def split_length)

lemma split_no_separator: "sep \<notin> set (concat (split sep s))"
  by (induction s) (auto split: list.splits)

lemma set_trim: "set (trim p) \<subseteq> set p"
proof
  fix x assume "x \<in> set (trim p)"
  then have "x \<in> set (dropWhile is_js_space (rev (dropWhile is_js_space p)))"
    by (simp add: trim_def)
  then have "x \<in> set (rev (dropWhile is_js_space p))" by (rule set_dropWhileD)
  then have "x \<in> set (dropWhile is_js_space p)" by simp
  then show "x \<in> set p" by (rule set_dropWhileD)
qed

lemma pipeline_stages_no_bar: "CHR ''|'' \<notin> set (concat (pipeline_stages input))"
  using split_no_separator[of "CHR ''|''" input] set_trim
  by (fastforce simp: pipeline_stages_def)

text \<open>
  C4, as stated: a line whose only \<^verbatim>\<open>|\<close> is inside quotes, or part of \<^verbatim>\<open>||\<close>, is not split
  into stages. The engine runs \<^verbatim>\<open>echo "a|b"\<close> as two stages, spawning \<^verbatim>\<open>echo\<close> with the
  argument \<^verbatim>\<open>"a\<close> and then \<^verbatim>\<open>b"\<close>, and cuts \<^verbatim>\<open>a || b\<close> into three stages, the middle one
  empty.
\<close>

theorem C4_quoted_bar_counterexample:
  \<open>effects (snd (execute host0 ''echo "a|b"'' [] shell0)) =
     [Spawned ''echo'' [''"a''] False ''/home/u'' [(''HOME'', ''/home/u'')],
      Spawned ''b"'' [] False ''/home/u'' [(''HOME'', ''/home/u'')]] \<and>
   pipeline_stages ''a || b'' = [''a'', [], ''b'']\<close>
  by (simp add: execute_def executePipeline_def pipeline_stages_def executeSingleCommand_def
      parseCommand_def trim_def is_js_space_def startsWith_def resolve_alias_def
      executeSystemCommand_def date_now_def push_history_def shell0_def host0_def Let_def
      get_prop_def set_prop_def)

text \<open>
  C4, amended: for every input line, the engine treats the trimmed line as a pipeline
  exactly when it contains a \<^verbatim>\<open>|\<close> character anywhere, also inside quotes and in \<^verbatim>\<open>||\<close>; it
  is then cut at every \<^verbatim>\<open>|\<close>, so the number of stages is the number of \<^verbatim>\<open>|\<close> characters
  plus one and no stage contains a \<^verbatim>\<open>|\<close>, and each stage is trimmed. A non-blank line without \<^verbatim>\<open>|\<close> is a script or a
  single command.
\<close>

theorem C4_pipeline_iff_any_bar:
  "execute h input context s =
     (if trim input = [] then (Inr Null, s)
      else if CHR ''|'' \<in> set (trim input) then
        run_stages h (map trim (split (CHR ''|'') (trim input))) 0
          (Suc (length (filter (\<lambda>c. c = CHR ''|'') (trim input)))) context Null
          (push_history
            \<lparr>he_input = trim input, he_timestamp = host_clock h (ticks s), he_context = context\<rparr>
            (s\<lparr>ticks := Suc (ticks s)\<rparr>))
      else if isObjectPipelineMode (trim input) then
        executeObjectPipeline h (trim input) context
          (push_history
            \<lparr>he_input = trim input, he_timestamp = host_clock h (ticks s), he_context = context\<rparr>
            (s\<lparr>ticks := Suc (ticks s)\<rparr>))
      else
        executeSingleCommand h (trim input) context
          (push_history
            \<lparr>he_input = trim input, he_timestamp = host_clock h (ticks s), he_context = context\<rparr>
            (s\<lparr>ticks := Suc (ticks s)\<rparr>)))
   \<and> CHR ''|'' \<notin> set (concat (map trim (split (CHR ''|'') (trim input))))"
  using pipeline_stages_length[of "trim input"] pipeline_stages_no_bar[of "trim input"]
  by (simp add: execute_def executePipeline_def date_now_def Let_def pipeline_stages_def)


section \<open>External commands\<close>

text \<open>
  C2, as stated: an external command that spawns and exits with a non-zero code returns a
  map with \<^verbatim>\<open>success=false\<close>. A child that exits with code 1 makes the engine raise.
\<close>

theorem C2_nonzero_exit_counterexample:
  "fst (executeSystemCommand host_failing (Some ''false'') [] [] [(''capture'', Bool True)] shell0) =
     Inl (Error ''Command failed with code 1: boom'')"
  by (simp add: executeSystemCommand_def host_failing_def host0_def get_prop_def Let_def
      show_code_def show_int_def)

text \<open>
  C2, amended: for every external command, an exit with code 0 returns the map with
  \<^verbatim>\<open>success=true\<close>, \<^verbatim>\<open>code=0\<close> and the trimmed output of the child on stdout and stderr
  (both empty when the output is not captured); an exit with any other code raises the
  error \<^verbatim>\<open>Command failed with code <code>: <stderr>\<close>; a spawn failure raises the error of
  the host; and every value the external-process path returns is such a map of a child
  that exited with code 0, so no map with \<^verbatim>\<open>success=false\<close> is returned.
\<close>

theorem C2_nonzero_exit_raises:
  "(\<forall>code out err.
      host_spawn h cmd args (truthy (get_prop context ''capture'')) (currentDirectory s) (environment s)
        = Close code out err \<longrightarrow>
      fst (executeSystemCommand h (Some cmd) args flags context s) =
        (if code = Some 0 then
           Inr (Obj [(''success'', Bool True), (''code'', Num 0),
                     (''stdout'', Str (trim (if truthy (get_prop context ''capture'') then out else []))),
                     (''stderr'', Str (trim (if truthy (get_prop context ''capture'') then err else [])))])
         else
           Inl (Error (''Command failed with code '' @ show_code code @ '': '' @
                  (if truthy (get_prop context ''capture'') then err else []))))) \<and>
   (\<forall>e.
      host_spawn h cmd args (truthy (get_prop context ''capture'')) (currentDirectory s) (environment s)
        = SpawnError e \<longrightarrow>
      fst (executeSystemCommand h (Some cmd) args flags context s) = Inl e) \<and>
   (\<forall>v. fst (executeSystemCommand h command args flags context s) = Inr v \<longrightarrow>
      (\<exists>c out err.
         command = Some c \<and>
         host_spawn h c args (truthy (get_prop context ''capture'')) (currentDirectory s) (environment s)
           = Close (Some 0) out err \<and>
         v = Obj [(''success'', Bool True), (''code'', Num 0),
                  (''stdout'', Str (trim (if truthy (get_prop context ''capture'') then out else []))),
                  (''stderr'', Str (trim (if truthy (get_prop context ''capture'') then err else [])))]))"
  by (auto simp: executeSystemCommand_def Let_def split: option.splits spawn_outcome.splits if_splits)

text \<open>
  The cases of C2 at concrete hosts: exit code 1, no binary, and exit code 0 with the
  output \<^verbatim>\<open>hello\<close> and a newline on stdout and \<^verbatim>\<open>warn\<close> between blanks on stderr, captured.
\<close>

theorem C2_nonzero_exit_witness:
  "fst (executeSystemCommand host_failing (Some ''false'') [] [] [(''capture'', Bool True)] shell0) =
     Inl (Error ''Command failed with code 1: boom'') \<and>
   fst (executeSystemCommand host_missing (Some ''nosuch'') [] [] [] shell0) =
     Inl (Error ''spawn ENOENT'') \<and>
   fst (executeSystemCommand host_echo (Some ''echo'') [''hello''] [] [(''capture'', Bool True)] shell0) =
     Inr (Obj [(''success'', Bool True), (''code'', Num 0),
               (''stdout'', Str ''hello''), (''stderr'', Str ''warn'')])"
proof -
  have a: "host_spawn host_failing ''false'' [] (truthy (get_prop [(''capture'', Bool True)] ''capture''))
             (currentDirectory shell0) (environment shell0) = Close (Some 1) [] ''boom''"
    by (simp add: host_failing_def host0_def)
  have b: "host_spawn host_missing ''nosuch'' [] (truthy (get_prop [] ''capture''))
             (currentDirectory shell0) (environment shell0) = SpawnError (Error ''spawn ENOENT'')"
    by (simp add: host_missing_def host0_def)
  have c: "host_spawn host_echo ''echo'' [''hello''] (truthy (get_prop [(''capture'', Bool True)] ''capture''))
             (currentDirectory shell0) (environment shell0) =
           Close (Some 0) (''hello'' @ [CHR 0x0A]) ''  warn ''"
    by (simp add: host_echo_def host0_def)
  have 1: "fst (executeSystemCommand host_failing (Some ''false'') [] [] [(''capture'', Bool True)] shell0) =
     Inl (Error ''Command failed with code 1: boom'')"
    using C2_nonzero_exit_raises[of host_failing "''false''" "[]" "[(''capture'', Bool True)]" shell0 "[]"] a
    by (simp add: show_code_def show_int_def get_prop_def)
  have 2: "fst (executeSystemCommand host_missing (Some ''nosuch'') [] [] [] shell0) =
     Inl (Error ''spawn ENOENT'')"
    using C2_nonzero_exit_raises[of host_missing "''nosuch''" "[]" "[]" shell0 "[]"] b by simp
  have 3: "fst (executeSystemCommand host_echo (Some ''echo'') [''hello''] [] [(''capture'', Bool True)] shell0) =
     Inr (Obj [(''success'', Bool True), (''code'', Num 0),
               (''stdout'', Str ''hello''), (''stderr'', Str ''warn'')])"
    using C2_nonzero_exit_raises[of host_echo "''echo''" "[''hello'']" "[(''capture'', Bool True)]" shell0 "[]"] c
    by (simp add: get_prop_def trim_def is_js_space_def)
  from 1 2 3 show ?thesis by blast
qed

section \<open>Permission lookup, audit log and bridge\<close>

lemma sandbox_context_value:
  "sandbox_context ''/home/u'' =
     \<lparr>permissions =
        [(''command:execute'', True), (''command:help'', True), (''command:exit'', True),
         (''command:history'', True), (''command:alias'', True), (''fs:read:/home/u/*'', True),
         (''fs:write:/home/u/*'', True), (''net:connect:localhost:*'', True),
         (''proc:list'', True), (''proc:info'', True), (''fs:write:/etc/*'', False),
         (''fs:write:/usr/*'', False), (''proc:kill:*'', False), (''fs:read:*'', True)],
      capabilities = [''shell:basic'', ''fs:user-directory'', ''net:local''],
      securityPolicies =
        [(''sandbox'',
          [(Deny, ''fs:write:/etc/*''), (Deny, ''fs:write:/usr/*''), (Deny, ''proc:kill:*''),
           (Allow, ''fs:read:*'')]),
         (''developer'',
          [(Allow, ''fs:*''), (Allow, ''proc:*''), (Allow, ''net:*''),
           (Deny, ''fs:write:/etc/passwd'')])],
      auditLog = []\<rparr>"
  by (simp add: sandbox_context_def applyPolicy_def initialize_def loadSecurityPolicies_def
      setDefaultPermissions_def grantPermission_def revokePermission_def addCapability_def
      new_security_context_def)

lemma sandbox_denies_kill:
  "hasPermission regexp_fragment (sandbox_context ''/home/u'') ''proc:kill:1'' = Inr False"
  by (simp add: sandbox_context_value hasPermission_def regexp_fragment_def)

lemma sandbox_allows_execute:
  "hasPermission rx (sandbox_context ''/home/u'') ''command:execute'' = Inr True"
  by (simp add: sandbox_context_value hasPermission_def)

text \<open>
  Each of the four bridge methods goes on to its host operation after a check that
  returned \<^verbatim>\<open>false\<close>.
\<close>

lemma proc_kill_ignores_denial:
  "hasPermission (host_regexp h) (securityContext s) (''proc:kill:'' @ show_int pid) = Inr False \<Longrightarrow>
   effects (snd (proc_kill h pid signal s)) = effects s @ [ProcessKill pid signal]"
  by (simp add: proc_kill_def shell_checkPermission_def checkPermission_def perform_def
      split: sum.splits)

lemma fs_writeFile_ignores_denial:
  "hasPermission (host_regexp h) (securityContext s) (''fs:write:'' @ filePath) = Inr False \<Longrightarrow>
   effects (snd (fs_writeFile h filePath content s)) = effects s @ [FsWriteFile filePath content]"
  by (simp add: fs_writeFile_def shell_checkPermission_def checkPermission_def perform_def
      split: sum.splits)

lemma fs_readFile_ignores_denial:
  "hasPermission (host_regexp h) (securityContext s) (''fs:read:'' @ filePath) = Inr False \<Longrightarrow>
   effects (snd (fs_readFile h filePath [] s)) = effects s @ [FsReadFile filePath ''utf8'']"
  by (simp add: fs_readFile_def shell_checkPermission_def checkPermission_def perform_def
      get_prop_def split: sum.splits)

lemma net_get_ignores_denial:
  "hasPermission (host_regexp h) (securityContext s) (''net:http:'' @ url) = Inr False \<Longrightarrow>
   effects (snd (net_get h url s)) = effects s @ [Fetch ''GET'' url]"
  by (simp add: net_get_def shell_checkPermission_def checkPermission_def perform_def
      split: sum.splits)

text \<open>
  C1, at \<^verbatim>\<open>proc.kill(1)\<close> under the sandbox policy: the check is denied and audited with
  \<^verbatim>\<open>granted=false\<close>, and the call still sends the signal and resolves without an error.
  The claim asks for a \<^verbatim>\<open>PermissionDenied\<close> error and no signal.
\<close>

theorem C1_denied_kill_is_delivered:
  "fst (proc_kill host0 1 ''SIGTERM'' shell0) = Inr Undefined \<and>
   effects (snd (proc_kill host0 1 ''SIGTERM'' shell0)) = [ProcessKill 1 ''SIGTERM''] \<and>
   map ae_granted (auditLog (securityContext (snd (proc_kill host0 1 ''SIGTERM'' shell0)))) = [False]"
proof -
  have p: "''proc:kill:'' @ show_int 1 = ''proc:kill:1''" by (simp add: show_int_def)
  have sc: "securityContext shell0 = sandbox_context ''/home/u''" by (simp add: shell0_def)
  have al: "auditLog (sandbox_context ''/home/u'') = []" by (simp add: sandbox_context_value)
  have h: "host_regexp host0 = regexp_fragment" by (simp add: host0_def)
  have c: "host_call host0 (ProcessKill 1 ''SIGTERM'') = Inr Undefined" by (simp add: host0_def)
  have e: "effects shell0 = []" by (simp add: shell0_def)
  show ?thesis
    unfolding proc_kill_def shell_checkPermission_def checkPermission_def perform_def p sc h
      sandbox_denies_kill
    by (simp add: sc al c e)
qed

text \<open>
  C5, with the pattern \<^verbatim>\<open>fs:read:/var/log/**\<close> granted: the lookup of
  \<^verbatim>\<open>fs:read:/var/log/syslog\<close> finds no exact entry, builds the regular expression
  \<^verbatim>\<open>fs:read:/var/log/.**\<close> and raises its syntax error. The claim asks for the decision of
  the first matching pattern, or deny.
\<close>

theorem C5_double_star_pattern_raises:
  "hasPermission regexp_fragment (grantPermission ''fs:read:/var/log/**'' new_security_context)
     ''fs:read:/var/log/syslog'' =
   Inl (SyntaxError ''Invalid regular expression'')"
  by (simp add: hasPermission_def grantPermission_def new_security_context_def regexp_fragment_def)

text \<open>
  The order of the lookup where no regular expression fails to compile: an exact entry
  decides, also an exact deny recorded by \<^verbatim>\<open>revokePermission\<close>; otherwise the first key
  with a star whose regular expression matches; otherwise deny.
\<close>

lemma hasPermission_exact:
  "map_of (permissions sc) permission = Some granted \<Longrightarrow> hasPermission rx sc permission = Inr granted"
  by (simp add: hasPermission_def)

lemma revokePermission_records_deny:
  "map_of (permissions (revokePermission permission sc)) permission = Some False"
  by (simp add: revokePermission_def update_Some_unfold)

lemma hasPermission_after_revoke:
  "hasPermission rx (revokePermission permission sc) permission = Inr False"
  by (simp add: hasPermission_exact revokePermission_records_deny)

lemma scan_wildcards_first_match:
  "find (\<lambda>(perm, granted). CHR ''*'' \<in> set perm \<and> rx (replace_star perm) permission \<noteq> Some False) ps
     = Some (p, g) \<Longrightarrow>
   rx (replace_star p) permission = Some True \<Longrightarrow>
   scan_wildcards rx ps permission = Inr g"
  by (induction ps) (auto split: if_splits option.splits bool.splits)

lemma scan_wildcards_no_match:
  "find (\<lambda>(perm, granted). CHR ''*'' \<in> set perm \<and> rx (replace_star perm) permission \<noteq> Some False) ps
     = None \<Longrightarrow>
   scan_wildcards rx ps permission = Inr False"
  by (induction ps) (auto split: if_splits option.splits bool.splits)

lemma check_all_log:
  "check_all rx cs sc = (Inr gs, sc') \<Longrightarrow>
   length gs = length cs \<and>
   auditLog sc' = auditLog sc @
     map (\<lambda>((now, permission, ctx), g).
           \<lparr>ae_timestamp = now, ae_permission = permission, ae_context = ctx,
            ae_granted = g, ae_source = source_of ctx\<rparr>) (zip cs gs)"
proof (induction cs arbitrary: sc gs)
  case Nil
  then show ?case by simp
next
  case (Cons c cs)
  obtain now permission ctx where c: "c = (now, permission, ctx)" by (cases c) auto
  from Cons.prems c obtain g sc1 gs1 where
    1: "checkPermission rx now permission ctx sc = (Inr g, sc1)" and
    2: "check_all rx cs sc1 = (Inr gs1, sc')" and 3: "gs = g # gs1"
    by (auto split: prod.splits sum.splits)
  from 1 have 4: "auditLog sc1 = auditLog sc @
      [\<lparr>ae_timestamp = now, ae_permission = permission, ae_context = ctx,
        ae_granted = g, ae_source = source_of ctx\<rparr>]"
    by (auto simp: checkPermission_def split: sum.splits)
  from Cons.IH[OF 2] 3 4 c show ?case by simp
qed

lemma check_all_replicate:
  "map_of (permissions sc) permission = Some granted \<Longrightarrow>
   fst (check_all rx (replicate n (now, permission, ctx)) sc) = Inr (replicate n granted)"
proof (induction n arbitrary: sc)
  case 0
  then show ?case by simp
next
  case (Suc n)
  let ?sc1 = "snd (checkPermission rx now permission ctx sc)"
  have 1: "checkPermission rx now permission ctx sc = (Inr granted, ?sc1)"
    using Suc.prems by (simp add: checkPermission_def hasPermission_def)
  have "permissions ?sc1 = permissions sc"
    using Suc.prems by (simp add: checkPermission_def hasPermission_def)
  then have "fst (check_all rx (replicate n (now, permission, ctx)) ?sc1) = Inr (replicate n granted)"
    using Suc.IH[of ?sc1] Suc.prems by simp
  then show ?case using 1 by (auto split: prod.splits sum.splits)
qed

text \<open>
  C6, as stated: the audit log holds at most N entries (10 000 by default). After 10 001
  checks the log holds 10 001 entries.
\<close>

theorem C6_audit_log_unbounded_counterexample:
  "length (auditLog (snd (check_all regexp_fragment (replicate 10001 (0, ''command:execute'', []))
      (sandbox_context ''/home/u'')))) = 10001"
proof -
  let ?r = "check_all regexp_fragment (replicate 10001 (0, ''command:execute'', [])) (sandbox_context ''/home/u'')"
  have m: "map_of (permissions (sandbox_context ''/home/u'')) ''command:execute'' = Some True"
    by (simp add: sandbox_context_value)
  have "fst ?r = Inr (replicate 10001 True)" using check_all_replicate[OF m] by simp
  then have "?r = (Inr (replicate 10001 True), snd ?r)" by (simp add: prod_eq_iff)
  from check_all_log[OF this] show ?thesis by (simp add: sandbox_context_value)
qed

text \<open>
  C6, amended: every permission check that returns a decision appends exactly one audit
  entry, at the end of the log, recording the permission, the decision and the timestamp
  (with the context and its source); the log is an array without a bound, no check removes
  an entry, and after any number of such checks the log is the old log followed by one
  entry per check, in order.
\<close>

theorem C6_each_check_appends_one_entry:
  "check_all rx cs sc = (Inr gs, sc') \<Longrightarrow>
   length gs = length cs \<and>
   auditLog sc' = auditLog sc @
     map (\<lambda>((now, permission, ctx), g).
           \<lparr>ae_timestamp = now, ae_permission = permission, ae_context = ctx,
            ae_granted = g, ae_source = source_of ctx\<rparr>) (zip cs gs)"
  by (rule check_all_log)

lemma hasPermission_auditLog:
  "hasPermission rx (sc\<lparr>auditLog := l\<rparr>) permission = hasPermission rx sc permission"
  by (simp add: hasPermission_def split: option.splits)

text \<open>Two checks under the sandbox policy, one granted and one denied.\<close>

theorem C6_each_check_appends_one_entry_witness:
  "auditLog (snd (check_all regexp_fragment [(1000, ''command:execute'', []), (1001, ''proc:kill:1'', [])]
      (sandbox_context ''/home/u''))) =
     [\<lparr>ae_timestamp = 1000, ae_permission = ''command:execute'', ae_context = [],
       ae_granted = True, ae_source = Str ''unknown''\<rparr>,
      \<lparr>ae_timestamp = 1001, ae_permission = ''proc:kill:1'', ae_context = [],
       ae_granted = False, ae_source = Str ''unknown''\<rparr>]"
proof -
  let ?r = "check_all regexp_fragment [(1000, ''command:execute'', []), (1001, ''proc:kill:1'', [])]
      (sandbox_context ''/home/u'')"
  have "fst ?r = Inr [True, False]"
    by (simp add: checkPermission_def hasPermission_auditLog sandbox_allows_execute
        sandbox_denies_kill)
  then have "?r = (Inr [True, False], snd ?r)" by (simp add: prod_eq_iff)
  from C6_each_check_appends_one_entry[OF this] show ?thesis
    by (simp add: sandbox_context_value source_of_def get_prop_def)
qed

section \<open>What running a line leaves unchanged\<close>

lemma kept_recorder: "kept s' = kept s \<Longrightarrow> executionRecorder s' = executionRecorder s"
  by (simp add: kept_def)

lemma kept_isRunning: "kept s' = kept s \<Longrightarrow> isRunning s' = isRunning s"
  by (simp add: kept_def)

lemma kept_permissions:
  "kept s' = kept s \<Longrightarrow> permissions (securityContext s') = permissions (securityContext s)"
  by (simp add: kept_def)

lemma checkPermission_permissions:
  "permissions (snd (checkPermission rx now p c sc)) = permissions sc"
  by (simp add: checkPermission_def split: sum.splits)

lemma kept_shell_checkPermission:
  "shell_checkPermission h p c s = (r, s') \<Longrightarrow> kept s' = kept s"
  using checkPermission_permissions[of "host_regexp h" "host_clock h (ticks s)" p c "securityContext s"]
  by (auto simp: shell_checkPermission_def kept_def split: prod.splits sum.splits)

lemma kept_checkPermissions:
  "checkPermissions h ps c s = (r, s') \<Longrightarrow> kept s' = kept s"
proof (induction ps arbitrary: s)
  case Nil
  then show ?case by simp
next
  case (Cons p ps)
  then show ?case
    by (auto split: prod.splits sum.splits if_splits dest: kept_shell_checkPermission)
qed

lemma kept_executeSystemCommand:
  "executeSystemCommand h cmd args flags c s = (r, s') \<Longrightarrow> kept s' = kept s"
  by (auto simp: executeSystemCommand_def kept_def Let_def
      split: option.splits spawn_outcome.splits if_splits)

lemma kept_run_host: "run_host out s = (r, s') \<Longrightarrow> kept s' = kept s"
  by (auto simp: run_host_def set_vars_def kept_def split: prod.splits)

lemma kept_executeSingleCommand:
  "executeSingleCommand h input c s = (r, s') \<Longrightarrow> kept s' = kept s"
  unfolding executeSingleCommand_def Let_def
  by (auto split: option.splits prod.splits sum.splits
        dest: kept_executeSystemCommand kept_checkPermissions)
     (metis kept_checkPermissions kept_run_host)+

lemma kept_run_stages:
  "run_stages h stages i n c v s = (r, s') \<Longrightarrow> kept s' = kept s"
proof (induction stages arbitrary: i v s)
  case Nil
  then show ?case by simp
next
  case (Cons st stages)
  then show ?case
    by (auto split: prod.splits sum.splits dest: kept_executeSingleCommand)
qed

lemma kept_executeObjectPipeline:
  "executeObjectPipeline h input c s = (r, s') \<Longrightarrow> kept s' = kept s"
  by (auto simp: executeObjectPipeline_def split: prod.splits sum.splits dest: kept_run_host)

lemma kept_push_history: "kept (push_history e s) = kept s"
  by (simp add: push_history_def kept_def)

lemma kept_date_now: "date_now h s = (now, s') \<Longrightarrow> kept s' = kept s"
  by (auto simp: date_now_def kept_def)

lemma kept_execute: "execute h input c s = (r, s') \<Longrightarrow> kept s' = kept s"
  unfolding execute_def Let_def executePipeline_def
  by (auto split: if_splits prod.splits simp: kept_push_history
      dest!: kept_run_stages kept_executeObjectPipeline kept_executeSingleCommand kept_date_now)


section \<open>Recorded commands\<close>

lemma deref_modify_current: "deref (modify_current f r) = map_option f (deref r)"
  by (auto simp: deref_def modify_current_def split: option.splits)

lemma recording_modify_current [simp]: "recording (modify_current f r) = recording r"
  by (simp add: modify_current_def split: option.splits)

lemma startRecording_fresh:
  assumes "\<not> recording (executionRecorder s)"
  shows "\<exists>obj. fst (startRecording h name s) = Inr () \<and>
           recording (executionRecorder (snd (startRecording h name s))) \<and>
           deref (executionRecorder (snd (startRecording h name s))) = Some obj \<and>
           rec_commands obj = [] \<and>
           isRunning (snd (startRecording h name s)) = isRunning s \<and>
           securityContext (snd (startRecording h name s)) = securityContext s"
  using assms
  by (simp add: startRecording_def recording_name_def date_now_def recorder_createSnapshot_def
      captureSystemState_def deref_def modify_current_def Let_def split: prod.splits)

lemma recordCommand_appends:
  assumes "recording (executionRecorder s)" and "deref (executionRecorder s) = Some obj"
  shows "\<exists>entry. fst (recordCommand h input ctx s) = Inr () \<and>
           deref (executionRecorder (snd (recordCommand h input ctx s))) =
             Some (obj\<lparr>rec_commands := rec_commands obj @ [entry]\<rparr>) \<and>
           cr_input entry = input \<and> cr_result entry = None \<and> cr_error entry = None \<and>
           cr_executionTime entry = None \<and>
           recording (executionRecorder (snd (recordCommand h input ctx s))) \<and>
           isRunning (snd (recordCommand h input ctx s)) = isRunning s \<and>
           securityContext (snd (recordCommand h input ctx s)) = securityContext s"
  using assms
  apply (simp add: recordCommand_def date_now_def captureSystemState_def deref_modify_current)
  apply (intro exI conjI)
      apply (rule refl)
     apply simp_all
  done

lemma shell_checkPermission_exact:
  assumes "map_of (permissions (securityContext s)) p = Some g"
  shows "fst (shell_checkPermission h p c s) = Inr g"
  using assms by (simp add: shell_checkPermission_def checkPermission_def hasPermission_def)

lemma executeCommand_records:
  assumes run: "isRunning s"
    and rec: "recording (executionRecorder s)"
    and obj: "deref (executionRecorder s) = Some obj"
    and perm: "map_of (permissions (securityContext s)) ''command:execute'' = Some g"
  shows "\<exists>entry. deref (executionRecorder (snd (executeCommand h input ctx s))) =
             Some (obj\<lparr>rec_commands := rec_commands obj @ [entry]\<rparr>) \<and>
           cr_input entry = input \<and> cr_result entry = None \<and> cr_error entry = None \<and>
           cr_executionTime entry = None \<and>
           recording (executionRecorder (snd (executeCommand h input ctx s))) \<and>
           isRunning (snd (executeCommand h input ctx s)) \<and>
           map_of (permissions (securityContext (snd (executeCommand h input ctx s))))
             ''command:execute'' = Some g"
proof -
  let ?s2 = "count_command (snd (date_now h s))"
  have r2: "executionRecorder ?s2 = executionRecorder s" "isRunning ?s2 = isRunning s"
    "securityContext ?s2 = securityContext s"
    by (simp_all add: count_command_def date_now_def)
  obtain r3 s3 where c3: "shell_checkPermission h ''command:execute'' [(''input'', Str input)] ?s2 = (r3, s3)"
    by (cases "shell_checkPermission h ''command:execute'' [(''input'', Str input)] ?s2") auto
  have "fst (shell_checkPermission h ''command:execute'' [(''input'', Str input)] ?s2) = Inr g"
    using perm r2 by (simp add: shell_checkPermission_exact)
  with c3 have r3: "r3 = Inr g" by simp
  have k3: "kept s3 = kept ?s2" using c3 by (rule kept_shell_checkPermission)
  have rec3: "recording (executionRecorder s3)" "deref (executionRecorder s3) = Some obj"
    "isRunning s3" "map_of (permissions (securityContext s3)) ''command:execute'' = Some g"
    using kept_recorder[OF k3] kept_isRunning[OF k3] kept_permissions[OF k3] r2 rec obj run perm
    by simp_all
  obtain entry where
    f4: "fst (recordCommand h input ctx s3) = Inr ()" and
    d4: "deref (executionRecorder (snd (recordCommand h input ctx s3))) =
             Some (obj\<lparr>rec_commands := rec_commands obj @ [entry]\<rparr>)" and
    e4: "cr_input entry = input" "cr_result entry = None" "cr_error entry = None"
        "cr_executionTime entry = None" and
    q4: "recording (executionRecorder (snd (recordCommand h input ctx s3)))"
        "isRunning (snd (recordCommand h input ctx s3)) = isRunning s3"
        "securityContext (snd (recordCommand h input ctx s3)) = securityContext s3"
    using recordCommand_appends[OF rec3(1) rec3(2), of h input ctx] by blast
  let ?s4 = "snd (recordCommand h input ctx s3)"
  obtain r5 s5 where c5: "execute h input ctx ?s4 = (r5, s5)"
    by (cases "execute h input ctx ?s4") auto
  have k5: "kept s5 = kept ?s4" using c5 by (rule kept_execute)
  have rec5: "executionRecorder s5 = executionRecorder ?s4" "isRunning s5"
    "map_of (permissions (securityContext s5)) ''command:execute'' = Some g"
    using kept_recorder[OF k5] kept_isRunning[OF k5] kept_permissions[OF k5] q4 rec3 by simp_all
  have r4: "recordCommand h input ctx s3 = (Inr (), ?s4)" using f4 by (simp add: prod_eq_iff)
  have "executionRecorder (snd (executeCommand h input ctx s)) = executionRecorder s5 \<and>
        isRunning (snd (executeCommand h input ctx s)) = isRunning s5 \<and>
        permissions (securityContext (snd (executeCommand h input ctx s))) =
          permissions (securityContext s5)"
    using run c3 r3 rec3(1) r4 c5
    by (auto simp: executeCommand_def update_stats_def date_now_def split: prod.splits sum.splits)
  then show ?thesis using d4 e4 q4 rec5 by auto
qed

lemma deref_SomeD:
  "deref r = Some obj \<Longrightarrow>
   \<exists>ref. currentRecording r = Some ref \<and> ref < length (objects r) \<and> objects r ! ref = obj"
  by (auto simp: deref_def split: option.splits if_splits)

lemma stopRecording_returns:
  assumes "recording (executionRecorder s)" and "deref (executionRecorder s) = Some obj"
  shows "\<exists>obj' path.
           fst (stopRecording h s) = Inr obj' \<and> rec_commands obj' = rec_commands obj \<and>
           rec_name obj' = rec_name obj \<and>
           effects (snd (stopRecording h s)) = effects s @ [SaveRecording path obj']"
proof -
  from deref_SomeD[OF assms(2)] obtain ref where
    "currentRecording (executionRecorder s) = Some ref" "ref < length (objects (executionRecorder s))"
    "objects (executionRecorder s) ! ref = obj"
    by blast
  then show ?thesis
    using assms(1)
    by (simp add: stopRecording_def date_now_def recorder_createSnapshot_def captureSystemState_def
        saveRecording_def perform_def deref_def modify_current_def Let_def)
qed

text \<open>
  C8, at the recording \<^verbatim>\<open>r1\<close> with \<^verbatim>\<open>pwd\<close> and \<^verbatim>\<open>date\<close> executed: the stopped recording,
  and the copy written to its file, has the two entries with their inputs, and neither has
  a \<^verbatim>\<open>result\<close> or an
  \<^verbatim>\<open>executionTime\<close>: \<^verbatim>\<open>executeCommand\<close> never calls \<^verbatim>\<open>recordCommandResult\<close>. The claim
  asks for both to be populated.
\<close>

theorem C8_recorded_entries_have_no_result:
  "map (\<lambda>c. (cr_input c, cr_result c, cr_executionTime c))
     (case fst (stopRecording host0
                 (snd (executeCommand host0 ''date'' []
                   (snd (executeCommand host0 ''pwd'' []
                     (snd (startRecording host0 (Some ''r1'') shell0))))))) of
        Inl e \<Rightarrow> []
      | Inr obj \<Rightarrow> rec_commands obj) =
   [(''pwd'', None, None), (''date'', None, None)] \<and>
   map (\<lambda>c. (cr_input c, cr_result c, cr_executionTime c))
     (case last (effects (snd (stopRecording host0
                 (snd (executeCommand host0 ''date'' []
                   (snd (executeCommand host0 ''pwd'' []
                     (snd (startRecording host0 (Some ''r1'') shell0))))))))) of
        SaveRecording path obj \<Rightarrow> rec_commands obj
      | other \<Rightarrow> []) =
   [(''pwd'', None, None), (''date'', None, None)]"
proof -
  let ?s1 = "snd (startRecording host0 (Some ''r1'') shell0)"
  let ?s2 = "snd (executeCommand host0 ''pwd'' [] ?s1)"
  let ?s3 = "snd (executeCommand host0 ''date'' [] ?s2)"
  have n0: "\<not> recording (executionRecorder shell0)" by (simp add: shell0_def)
  have p0: "map_of (permissions (securityContext shell0)) ''command:execute'' = Some True"
    by (simp add: shell0_def sandbox_context_value)
  have run0: "isRunning shell0" by (simp add: shell0_def)
  from startRecording_fresh[OF n0, of host0 "Some ''r1''"] obtain o1 where
    s1: "recording (executionRecorder ?s1)" "deref (executionRecorder ?s1) = Some o1"
        "rec_commands o1 = []" "isRunning ?s1"
        "map_of (permissions (securityContext ?s1)) ''command:execute'' = Some True"
    using p0 run0 by auto
  from executeCommand_records[OF s1(4) s1(1) s1(2) s1(5), of host0 "''pwd''" "[]"] obtain e1 where
    s2: "deref (executionRecorder ?s2) = Some (o1\<lparr>rec_commands := rec_commands o1 @ [e1]\<rparr>)"
        "cr_input e1 = ''pwd''" "cr_result e1 = None" "cr_executionTime e1 = None"
        "recording (executionRecorder ?s2)" "isRunning ?s2"
        "map_of (permissions (securityContext ?s2)) ''command:execute'' = Some True"
    by blast
  from executeCommand_records[OF s2(6) s2(5) s2(1) s2(7), of host0 "''date''" "[]"] obtain e2 where
    s3: "deref (executionRecorder ?s3) =
           Some (o1\<lparr>rec_commands := rec_commands o1 @ [e1]\<rparr>
                   \<lparr>rec_commands := rec_commands (o1\<lparr>rec_commands := rec_commands o1 @ [e1]\<rparr>) @ [e2]\<rparr>)"
        "cr_input e2 = ''date''" "cr_result e2 = None" "cr_executionTime e2 = None"
        "recording (executionRecorder ?s3)"
    by blast
  from stopRecording_returns[OF s3(5) s3(1), of host0] obtain obj' path where
    "fst (stopRecording host0 ?s3) = Inr obj'" "rec_commands obj' = [e1, e2]"
    "effects (snd (stopRecording host0 ?s3)) = effects ?s3 @ [SaveRecording path obj']"
    using s1(3) by auto
  then show ?thesis using s2(2-4) s3(2-4) by simp
qed


section \<open>Transactions\<close>

lemma kept_transactionStack: "kept s' = kept s \<Longrightarrow> transactionStack s' = transactionStack s"
  by (simp add: kept_def)

lemma recordCommand_transactionStack:
  "transactionStack (snd (recordCommand h input ctx s)) = transactionStack s"
  by (simp add: recordCommand_def date_now_def captureSystemState_def split: option.splits)

lemma executeCommand_transactionStack:
  "transactionStack (snd (executeCommand h input ctx s)) = transactionStack s"
proof (cases "isRunning s")
  case False
  then show ?thesis by (simp add: executeCommand_def)
next
  case True
  let ?s2 = "count_command (snd (date_now h s))"
  have t2: "transactionStack ?s2 = transactionStack s"
    by (simp add: count_command_def date_now_def)
  obtain r3 s3 where c3: "shell_checkPermission h ''command:execute'' [(''input'', Str input)] ?s2 = (r3, s3)"
    by (cases "shell_checkPermission h ''command:execute'' [(''input'', Str input)] ?s2") auto
  have t3: "transactionStack s3 = transactionStack s"
    using kept_transactionStack[OF kept_shell_checkPermission[OF c3]] t2 by simp
  let ?rc = "if recording (executionRecorder s3) then recordCommand h input ctx s3 else (Inr (), s3)"
  obtain r4 s4 where c4: "?rc = (r4, s4)" by (cases ?rc) auto
  have t4: "transactionStack s4 = transactionStack s"
    using c4 t3 recordCommand_transactionStack[of h input ctx s3]
    by (auto split: if_splits simp: prod_eq_iff)
  obtain r5 s5 where c5: "execute h input ctx s4 = (r5, s5)"
    by (cases "execute h input ctx s4") auto
  have t5: "transactionStack s5 = transactionStack s"
    using kept_transactionStack[OF kept_execute[OF c5]] t4 by simp
  show ?thesis
    using True c3 c4 c5 t3 t4 t5
    by (auto simp: executeCommand_def update_stats_def date_now_def split: prod.splits sum.splits)
qed

lemma run_commands_transactionStack:
  "transactionStack (snd (run_commands h cmds s)) = transactionStack s"
proof (induction cmds arbitrary: s)
  case Nil
  then show ?case by simp
next
  case (Cons c cmds)
  show ?case
    using Cons.IH[of "snd (executeCommand h c [] s)"] executeCommand_transactionStack[of h c "[]" s]
    by (auto split: prod.splits sum.splits)
qed

lemma find_fresh_append:
  "x \<notin> f ` set xs \<Longrightarrow> find (\<lambda>y. f y = x) (xs @ [z]) = (if f z = x then Some z else None)"
  by (induction xs) auto

text \<open>
  A transaction that runs with no other call in between, and whose id no entry left on the
  stack has: when its commands raise an error, the current directory, the environment and
  the aliases after the rollback are those of the moment it began. Entries of failed
  transactions stay on the stack, and the rollback takes the first entry with its id, so
  an entry left there with the same id would be restored in its place.
\<close>

theorem sequential_rollback_restores_shell_variables:
  assumes failed: "executeTransaction h rnd cmds onRollback s = (Inl e, s')"
    and fresh: "transaction_id h rnd s \<notin> tx_id ` set (transactionStack s)"
  shows "currentDirectory s' = currentDirectory s \<and> environment s' = environment s \<and>
         aliases s' = aliases s"
proof -
  let ?tid = "transaction_id h rnd s"
  let ?snap = "\<lparr>ts_timestamp = host_clock h (Suc (ticks s)), ts_currentDirectory = currentDirectory s,
                 ts_environment = environment s, ts_aliases = aliases s\<rparr>"
  let ?tx = "\<lparr>tx_id = ?tid, tx_snapshot = ?snap, tx_commands = cmds, tx_onRollback = onRollback\<rparr>"
  let ?s3 = "s\<lparr>ticks := Suc (Suc (ticks s)), transactionStack := transactionStack s @ [?tx]\<rparr>"
  obtain r4 s4 where c4: "run_commands h cmds ?s3 = (r4, s4)"
    by (cases "run_commands h cmds ?s3") auto
  have t4: "transactionStack s4 = transactionStack s @ [?tx]"
    using run_commands_transactionStack[of h cmds ?s3] c4 by simp
  have unfold: "executeTransaction h rnd cmds onRollback s =
     (case r4 of
        Inr results \<Rightarrow> (Inr results, s4\<lparr>transactionStack := butlast (transactionStack s4)\<rparr>)
      | Inl e0 \<Rightarrow>
          (case rollbackTransaction h ?tid s4 of
             (Inl e', s5) \<Rightarrow> (Inl e', s5)
           | (Inr u, s5) \<Rightarrow> (Inl e0, s5)))"
    using c4
    by (simp add: executeTransaction_def begin_transaction_def end_transaction_def
        createSnapshot_def date_now_def transaction_id_def Let_def split: sum.splits)
  have found: "find (\<lambda>tx. tx_id tx = ?tid) (transactionStack s4) = Some ?tx"
    using fresh t4 by (simp add: find_fresh_append)
  have restored: "snd (rollbackTransaction h ?tid s4) = restoreSnapshot ?snap s4"
    using found by (simp add: rollbackTransaction_def Let_def split: option.splits)
  from failed unfold obtain e0 where "r4 = Inl e0" and "s' = snd (rollbackTransaction h ?tid s4)"
    by (auto split: sum.splits prod.splits)
  then show ?thesis using restored by (simp add: restoreSnapshot_def)
qed


lemmas eval_defs = date_now_def  executeCommand_def count_command_def shell_checkPermission_def checkPermission_def hasPermission_def
  execute_def trim_def is_js_space_def isObjectPipelineMode_def startsWith_def is_word_def word_then_paren_def executeSingleCommand_def
  parseCommand_def resolve_alias_def run_host_def set_vars_def vars_of_def push_history_def update_stats_def
  message_def Let_def source_of_def get_prop_def

lemma cd_changes: "currentDirectory (snd (executeCommand host_tx ''cd /tmp'' [] shell_tx)) = ''/tmp''"
  by (simp add: eval_defs shell_tx_def shell0_def host_tx_def host0_def sandbox_context_value)

lemma tx_fails:
  "fst (executeTransaction host_tx ''r4nd0m'' [''cd /tmp'', ''fail''] None shell_tx) =
     Inl (Error (''Command '' @ [CHR 0x27] @ ''fail'' @ [CHR 0x27] @ '' failed: boom''))"
  by (simp add: executeTransaction_def begin_transaction_def end_transaction_def createSnapshot_def
      rollbackTransaction_def restoreSnapshot_def eval_defs shell_tx_def shell0_def host_tx_def
      host0_def sandbox_context_value)

text \<open>
  A transaction that changes the directory to \<^verbatim>\<open>/tmp\<close> and then fails: the directory is
  \<^verbatim>\<open>/home/u\<close> again.
\<close>

theorem sequential_rollback_example:
  "currentDirectory (snd (executeCommand host_tx ''cd /tmp'' [] shell_tx)) = ''/tmp'' \<and>
   fst (executeTransaction host_tx ''r4nd0m'' [''cd /tmp'', ''fail''] None shell_tx) =
     Inl (Error (''Command '' @ [CHR 0x27] @ ''fail'' @ [CHR 0x27] @ '' failed: boom'')) \<and>
   currentDirectory (snd (executeTransaction host_tx ''r4nd0m'' [''cd /tmp'', ''fail''] None shell_tx)) =
     ''/home/u'' \<and>
   environment (snd (executeTransaction host_tx ''r4nd0m'' [''cd /tmp'', ''fail''] None shell_tx)) =
     [(''HOME'', ''/home/u'')] \<and>
   aliases (snd (executeTransaction host_tx ''r4nd0m'' [''cd /tmp'', ''fail''] None shell_tx)) = []"
proof -
  let ?r = "executeTransaction host_tx ''r4nd0m'' [''cd /tmp'', ''fail''] None shell_tx"
  have f: "?r = (Inl (Error (''Command '' @ [CHR 0x27] @ ''fail'' @ [CHR 0x27] @ '' failed: boom'')), snd ?r)"
    using tx_fails by (simp add: prod_eq_iff)
  have fresh: "transaction_id host_tx ''r4nd0m'' shell_tx \<notin> tx_id ` set (transactionStack shell_tx)"
    by (simp add: shell_tx_def shell0_def)
  from sequential_rollback_restores_shell_variables[OF f fresh] cd_changes tx_fails
  show ?thesis by (simp add: shell_tx_def shell0_def)
qed

text \<open>
  C7, at two overlapping transactions: \<open>A\<close> pushes its entry, \<open>B\<close> pushes its entry, \<open>A\<close>
  succeeds and its \<^verbatim>\<open>pop()\<close> removes the entry of \<open>B\<close>; \<open>B\<close> then moves the shell to
  \<^verbatim>\<open>/tmp\<close>, fails on its second command, and its rollback raises
  \<^verbatim>\<open>Transaction ... not found\<close> before any snapshot is restored. The shell stays in
  \<^verbatim>\<open>/tmp\<close>, while \<open>B\<close> began in \<^verbatim>\<open>/home/u\<close>. The claim asks for the state at the begin.
\<close>

theorem C7_overlapping_rollback_restores_nothing:
  "currentDirectory (snd overlap_B_begun) = ''/home/u'' \<and>
   map tx_id (transactionStack (snd overlap_B_begun)) = [''tx_1000_aaa'', ''tx_1002_bbb''] \<and>
   fst overlap_A_ended = Inr [Str ''/home/u''] \<and>
   map tx_id (transactionStack (snd overlap_A_ended)) = [''tx_1000_aaa''] \<and>
   fst overlap_B_ended = Inl (Error ''Transaction tx_1002_bbb not found'') \<and>
   currentDirectory (snd overlap_B_ended) = ''/tmp''"
  by (simp add: overlap_B_ended_def overlap_A_ended_def overlap_B_begun_def overlap_A_begun_def
      begin_transaction_def end_transaction_def createSnapshot_def rollbackTransaction_def
      restoreSnapshot_def eval_defs shell_overlap_def shell0_def host_overlap_def host0_def
      sandbox_context_value show_int_def)

end
